theory Spec2Isabelle
  imports Complex_Main "HOL-Library.Sublist" "HOL-Library.Multiset" "HOL-Library.Log_Nat"
    "HOL-Library.Word"
begin

section \<open>Numbers\<close>

text \<open>
  A JavaScript number is an IEEE 754 double. The doubles of this development are the
  finite ones: the reals that rounding to 53 significant bits, to nearest and on a tie
  to the even significand, leaves as they are. The exponent is not bounded, so that
  there is neither overflow nor underflow, and \<open>NaN\<close> and the infinities are no values;
  ratings and scores are far from those limits. Zero has no sign.
\<close>

definition round_even :: "real \<Rightarrow> int" where
  "round_even x =
     (let f = \<lfloor>x\<rfloor>; d = x - of_int f
      in if d < 1 / 2 then f else if 1 / 2 < d then f + 1 else if even f then f else f + 1)"

text \<open>The exponent \<open>e\<close> with \<open>2 ^ e \<le> \<bar>x\<bar> < 2 ^ (e + 1)\<close>, for \<open>x\<close> other than 0.\<close>

definition binade :: "real \<Rightarrow> int" where
  "binade x =
     (if 1 \<le> \<bar>x\<bar> then int (floorlog 2 (nat \<lfloor>\<bar>x\<bar>\<rfloor>)) - 1
      else - int (floorlog 2 (nat (\<lceil>1 / \<bar>x\<bar>\<rceil> - 1))))"

text \<open>Rounding a real to the nearest double.\<close>

definition fl64 :: "real \<Rightarrow> real" where
  "fl64 x =
     (if x = 0 then 0
      else (let u = power_int 2 (binade x - 52)
            in of_int (round_even (x / u)) * u))"

typedef double = "{x :: real. fl64 x = x}"
  morphisms real_of Abs_double
  by (rule exI [of _ 0]) (simp add: fl64_def)

text \<open>
  \<open>dbl x\<close> is the double that a numeric literal or an exact result \<open>x\<close> stands for; the
  arithmetic operators compute exactly and round once. \<open>js_half\<close> is division by the
  literal 2, the one division of the program.
\<close>

definition dbl :: "real \<Rightarrow> double" where
  "dbl x = Abs_double (fl64 x)"

definition js_add :: "double \<Rightarrow> double \<Rightarrow> double" where
  "js_add a b = dbl (real_of a + real_of b)"

definition js_mul :: "double \<Rightarrow> double \<Rightarrow> double" where
  "js_mul a b = dbl (real_of a * real_of b)"

definition js_half :: "double \<Rightarrow> double" where
  "js_half a = dbl (real_of a / 2)"

section \<open>Strings and the built-in Set\<close>

text \<open>
  A JavaScript string is the list of its UTF-16 code units; \<open>str\<close> gives the string of
  an ASCII text. \<open>String.prototype.toLowerCase\<close> follows the case mappings of the Unicode
  version of the runtime, which no source of this program fixes: the functions that
  lower case take it as their first argument, and what is proved of them holds for every
  such function.
\<close>

type_synonym js_string = "16 word list"

definition str :: "string \<Rightarrow> js_string" where
  "str s = map of_char s"

text \<open>\<open>s.includes(t)\<close> on strings: \<open>t\<close> occurs in \<open>s\<close> as a contiguous run of code units.\<close>

definition str_includes :: "js_string \<Rightarrow> js_string \<Rightarrow> bool" where
  "str_includes s t = sublist t s"

text \<open>\<open>xs.includes(x)\<close> on arrays: equality with some element.\<close>

definition arr_includes :: "'a list \<Rightarrow> 'a \<Rightarrow> bool" where
  "arr_includes xs x = (x \<in> set xs)"

text \<open>
  What \<open>String.prototype.trim\<close> strips: the code points of \<open>WhiteSpace\<close> (tab, vertical
  tab, form feed, the byte order mark and the space separators of Unicode, category Zs)
  and of \<open>LineTerminator\<close>. All of them are single code units.
\<close>

definition is_whitespace :: "16 word \<Rightarrow> bool" where
  "is_whitespace c \<longleftrightarrow>
     c \<in> {0x0009, 0x000B, 0x000C, 0xFEFF,
          0x0020, 0x00A0, 0x1680, 0x202F, 0x205F, 0x3000}
     \<or> (0x2000 \<le> c \<and> c \<le> 0x200A)
     \<or> c \<in> {0x000A, 0x000D, 0x2028, 0x2029}"

definition trim :: "js_string \<Rightarrow> js_string" where
  "trim s = rev (dropWhile is_whitespace (rev (dropWhile is_whitespace s)))"

text \<open>
  The built-in \<open>Set\<close> keeps its elements in insertion order and never holds one twice:
  a list without duplicates. \<open>add\<close> of a present element changes nothing, \<open>new Set(xs)\<close>
  adds the elements of \<open>xs\<close> one by one, and spreading a set gives the list back.
\<close>

type_synonym 'a js_set = "'a list"

definition set_has :: "'a js_set \<Rightarrow> 'a \<Rightarrow> bool" where
  "set_has s x = (x \<in> set s)"

definition set_add :: "'a js_set \<Rightarrow> 'a \<Rightarrow> 'a js_set" where
  "set_add s x = (if set_has s x then s else s @ [x])"

definition set_delete :: "'a js_set \<Rightarrow> 'a \<Rightarrow> 'a js_set" where
  "set_delete s x = removeAll x s"

definition set_size :: "'a js_set \<Rightarrow> nat" where
  "set_size s = length s"

definition new_Set :: "'a list \<Rightarrow> 'a js_set" where
  "new_Set xs = foldl set_add [] xs"

section \<open>The itinerary modal: data and component state\<close>

text \<open>
  \<open>interface TouristSpot\<close> of \<open>CreateItineraryModal.tsx\<close>. The fields \<open>id\<close> and \<open>name\<close>
  are called \<open>spot_id\<close> and \<open>spot_name\<close>; \<open>null\<close> is \<open>None\<close>.
\<close>

record TouristSpot =
  spot_id :: js_string
  spot_name :: js_string
  description :: "js_string option"
  location :: js_string
  municipality :: "js_string option"
  category :: "js_string list"
  image_url :: "js_string option"
  latitude :: "double option"
  longitude :: "double option"
  rating :: "double option"
  budget_level :: "js_string option"
  scenery_type :: "js_string list"
  spot_type :: "js_string list"
  is_hidden_gem :: bool

text \<open>
  The preference object is untyped in the source (\<open>any\<close>); the scorer reads four fields of
  it, each of which may be missing.
\<close>

record UserPreferences =
  preferredActivities :: "js_string list option"
  budgetRange :: "js_string option"
  sceneryType :: "js_string list option"
  hiddenGems :: "bool option"

text \<open>The \<open>useState\<close> cells of the component.\<close>

record modal_state =
  itineraryName :: js_string
  loading :: bool
  spots :: "TouristSpot list"
  selectedSpots :: "js_string js_set"
  fetchingSpots :: bool
  userPreferences :: "UserPreferences option"

section \<open>Selection set: \<open>toggleSpot\<close>\<close>

definition toggleSpot :: "js_string \<Rightarrow> modal_state \<Rightarrow> modal_state" where
  "toggleSpot spotId st =
     (let newSelected = new_Set (selectedSpots st);
          newSelected' = (if set_has newSelected spotId
                          then set_delete newSelected spotId
                          else set_add newSelected spotId)
      in st\<lparr>selectedSpots := newSelected'\<rparr>)"

section \<open>Preference scorer: \<open>scoreSpot\<close>\<close>

text \<open>
  The arrow function given to \<open>preferredActivities.filter\<close>: some category tag of the
  spot, in lower case, includes the activity in lower case.
\<close>

definition activity_matches ::
  "(js_string \<Rightarrow> js_string) \<Rightarrow> TouristSpot \<Rightarrow> js_string \<Rightarrow> bool" where
  "activity_matches toLowerCase spot activity =
     list_ex (\<lambda>cat. str_includes (toLowerCase cat) (toLowerCase activity)) (category spot)"

text \<open>
  The five blocks of \<open>scoreSpot\<close>, each named by its comment in the source and each
  taking the score so far. Truthiness is written out: an array is truthy whenever it is
  there (\<open>spot.category\<close> and \<open>spot.scenery_type\<close> always are, by the interface), a string
  when it is there and not empty, a number when it is there and not zero, a flag when it
  is there and true.
\<close>

definition category_matching ::
  "(js_string \<Rightarrow> js_string) \<Rightarrow> UserPreferences \<Rightarrow> TouristSpot \<Rightarrow> double \<Rightarrow> double" where
  "category_matching toLowerCase prefs spot score =
     (case preferredActivities prefs of
        None \<Rightarrow> score
      | Some acts \<Rightarrow>
          (let matches = filter (activity_matches toLowerCase spot) acts
           in js_add score (js_mul (dbl (real (length matches))) (dbl 3))))"

definition budget_level_matching ::
  "(js_string \<Rightarrow> js_string) \<Rightarrow> UserPreferences \<Rightarrow> TouristSpot \<Rightarrow> double \<Rightarrow> double" where
  "budget_level_matching toLowerCase prefs spot score =
     (case (budgetRange prefs, budget_level spot) of
        (Some wanted, Some level) \<Rightarrow>
          if wanted \<noteq> [] \<and> level \<noteq> [] \<and> toLowerCase level = toLowerCase wanted
          then js_add score (dbl 2) else score
      | _ \<Rightarrow> score)"

definition scenery_type_matching :: "UserPreferences \<Rightarrow> TouristSpot \<Rightarrow> double \<Rightarrow> double" where
  "scenery_type_matching prefs spot score =
     (case sceneryType prefs of
        None \<Rightarrow> score
      | Some wanted \<Rightarrow>
          (let matches = filter (\<lambda>scenery. arr_includes wanted scenery) (scenery_type spot)
           in js_add score (js_mul (dbl (real (length matches))) (dbl 2))))"

definition hidden_gems_preference :: "UserPreferences \<Rightarrow> TouristSpot \<Rightarrow> double \<Rightarrow> double" where
  "hidden_gems_preference prefs spot score =
     (if hiddenGems prefs = Some True \<and> is_hidden_gem spot then js_add score (dbl 2) else score)"

definition rating_boost :: "TouristSpot \<Rightarrow> double \<Rightarrow> double" where
  "rating_boost spot score =
     (case rating spot of
        None \<Rightarrow> score
      | Some r \<Rightarrow> if real_of r \<noteq> 0 then js_add score (js_half r) else score)"

text \<open>
  \<open>scoreSpot\<close> reads the component's \<open>userPreferences\<close>; the value that \<open>Math.random()\<close>
  returns, should it be called, is the argument \<open>random\<close>.
\<close>

definition scoreSpot ::
  "(js_string \<Rightarrow> js_string) \<Rightarrow> double \<Rightarrow> UserPreferences option \<Rightarrow> TouristSpot \<Rightarrow> double" where
  "scoreSpot toLowerCase random userPrefs spot =
     (case userPrefs of
        None \<Rightarrow> random
      | Some prefs \<Rightarrow>
         (let score = dbl 0;
              score = category_matching toLowerCase prefs spot score;
              score = budget_level_matching toLowerCase prefs spot score;
              score = scenery_type_matching prefs spot score;
              score = hidden_gems_preference prefs spot score;
              score = rating_boost spot score
          in score))"

section \<open>Top-K selection: \<open>handleAutoSelect\<close>\<close>

text \<open>The objects \<open>{ spot, score }\<close> that \<open>handleAutoSelect\<close> sorts.\<close>

record scored_item =
  spot :: TouristSpot
  score :: double

text \<open>
  \<open>spots.map((spot) => ({ spot, score: scoreSpot(spot) }))\<close>. The calls run in list order
  and each draws at most one random number, so with no preferences the spot at index
  \<open>i\<close> receives the draw number \<open>i\<close> of the sequence \<open>random\<close>.
\<close>

definition scoreAll ::
  "(js_string \<Rightarrow> js_string) \<Rightarrow> (nat \<Rightarrow> double) \<Rightarrow> UserPreferences option \<Rightarrow> TouristSpot list
     \<Rightarrow> scored_item list" where
  "scoreAll toLowerCase random userPrefs xs =
     map (\<lambda>(i, s). \<lparr>spot = s, score = scoreSpot toLowerCase (random i) userPrefs s\<rparr>)
       (enumerate 0 xs)"

text \<open>
  \<open>.sort((a, b) => b.score - a.score)\<close>: the difference of two doubles has the sign of
  their exact difference, the built-in sort is stable, and so the list is ordered by
  falling score, which is rising negated score, with equal scores in their old order.
\<close>

definition sort_desc :: "scored_item list \<Rightarrow> scored_item list" where
  "sort_desc items = sort_key (\<lambda>item. - real_of (score item)) items"

text \<open>The constant \<open>scoredSpots\<close> of \<open>handleAutoSelect\<close>: the identifiers chosen.\<close>

definition scoredSpots ::
  "(js_string \<Rightarrow> js_string) \<Rightarrow> (nat \<Rightarrow> double) \<Rightarrow> modal_state \<Rightarrow> js_string list" where
  "scoredSpots toLowerCase random st =
     map (\<lambda>item. spot_id (spot item))
       (take 8 (sort_desc (scoreAll toLowerCase random (userPreferences st) (spots st))))"

text \<open>What a handler does besides updating the state, in the order it does it.\<close>

record itinerary_row =
  user_id :: js_string
  name :: js_string
  row_spots :: "TouristSpot list"
  selected_categories :: "js_string list"

datatype effect =
    Toast_error string
  | Toast_success string
  | Insert itinerary_row
  | OnOpenChange bool
  | OnSuccess

definition handleAutoSelect ::
  "(js_string \<Rightarrow> js_string) \<Rightarrow> (nat \<Rightarrow> double) \<Rightarrow> modal_state \<Rightarrow> modal_state \<times> effect list" where
  "handleAutoSelect toLowerCase random st =
     (st\<lparr>selectedSpots := new_Set (scoredSpots toLowerCase random st)\<rparr>,
      [Toast_success ''Auto-selected top 8 recommended spots based on your preferences!''])"

section \<open>Persisting an itinerary: \<open>handleCreateItinerary\<close>\<close>

text \<open>
  The insert into the table \<open>itineraries\<close> is a call to the outside: \<open>insert_error row\<close>
  tells whether the store answers the insert of \<open>row\<close> with an error. \<open>setLoading(true)\<close>
  and \<open>setLoading(false)\<close> surround it, so \<open>loading\<close> is false once the handler is done.
\<close>

definition handleCreateItinerary ::
  "(itinerary_row \<Rightarrow> bool) \<Rightarrow> js_string \<Rightarrow> modal_state \<Rightarrow> modal_state \<times> effect list" where
  "handleCreateItinerary insert_error userId st =
     (if trim (itineraryName st) = [] then
        (st, [Toast_error ''Please enter an itinerary name''])
      else if set_size (selectedSpots st) = 0 then
        (st, [Toast_error ''Please select at least one spot''])
      else
        (let selectedSpotData =
               filter (\<lambda>s. set_has (selectedSpots st) (spot_id s)) (spots st);
             row = \<lparr>user_id = userId,
                    name = itineraryName st,
                    row_spots = selectedSpotData,
                    selected_categories = new_Set (concat (map category selectedSpotData))\<rparr>
         in if insert_error row then
              (st\<lparr>loading := False\<rparr>,
               [Insert row, Toast_error ''Failed to create itinerary''])
            else
              (st\<lparr>loading := False, itineraryName := [], selectedSpots := new_Set []\<rparr>,
               [Insert row, Toast_success ''Itinerary created successfully!'',
                OnOpenChange False, OnSuccess])))"

section \<open>The specification's reading of an activity hit, and sample data\<close>

text \<open>
  The specification counts the pairs of a preferred activity and a category tag of the
  spot in which the tag, in lower case, contains the activity, in lower case.
\<close>

definition activity_hits_spec ::
  "(js_string \<Rightarrow> js_string) \<Rightarrow> js_string list \<Rightarrow> js_string list \<Rightarrow> nat" where
  "activity_hits_spec toLowerCase acts cats =
     length (filter (\<lambda>(activity, cat). str_includes (toLowerCase cat) (toLowerCase activity))
               (List.product acts cats))"

definition plain_spot :: TouristSpot where
  "plain_spot = \<lparr>spot_id = str ''s1'', spot_name = str ''Spot'', description = None,
     location = str ''Albay'', municipality = None, category = [], image_url = None,
     latitude = None, longitude = None, rating = None, budget_level = None,
     scenery_type = [], spot_type = [], is_hidden_gem = False\<rparr>"

definition no_preferences :: UserPreferences where
  "no_preferences = \<lparr>preferredActivities = None, budgetRange = None,
     sceneryType = None, hiddenGems = None\<rparr>"

text \<open>
  Two spots and preferences for which the exact sums differ, 3 + 2.15 and 5 + 0.15 with
  the doubles of 4.3 and 0.3 halved, while the sums as doubles are the same.
\<close>

definition spot_A :: TouristSpot where
  "spot_A = plain_spot\<lparr>spot_id := str ''A'', category := [str ''hiking''],
     rating := Some (dbl (43 / 10))\<rparr>"

definition spot_B :: TouristSpot where
  "spot_B = plain_spot\<lparr>spot_id := str ''B'', category := [str ''hiking''],
     budget_level := Some (str ''low''), rating := Some (dbl (3 / 10))\<rparr>"

definition prefs_AB :: UserPreferences where
  "prefs_AB = \<lparr>preferredActivities = Some [str ''hiking''], budgetRange = Some (str ''low''),
     sceneryType = None, hiddenGems = None\<rparr>"

definition sample_state :: modal_state where
  "sample_state = \<lparr>itineraryName = str ''Weekend'', loading = False,
     spots = [plain_spot\<lparr>spot_id := str ''s1'', category := [str ''Nature'', str ''Hiking'']\<rparr>,
              plain_spot\<lparr>spot_id := str ''s2'', category := [str ''Hiking'', str ''Food'']\<rparr>,
              plain_spot\<lparr>spot_id := str ''s3'', category := [str ''Beach'']\<rparr>],
     selectedSpots = [str ''s2'', str ''s1''], fetchingSpots = False, userPreferences = None\<rparr>"

text \<open>The row that \<open>handleCreateItinerary\<close> builds from the state.\<close>

definition built_row :: "js_string \<Rightarrow> modal_state \<Rightarrow> itinerary_row" where
  "built_row userId st =
     (let selectedSpotData =
            filter (\<lambda>s. set_has (selectedSpots st) (spot_id s)) (spots st)
      in \<lparr>user_id = userId,
          name = itineraryName st,
          row_spots = selectedSpotData,
          selected_categories = new_Set (concat (map category selectedSpotData))\<rparr>)"

definition ghost_state :: modal_state where
  "ghost_state = \<lparr>itineraryName = str ''Weekend'', loading = False,
     spots = [plain_spot\<lparr>spot_id := str ''s1'', category := [str ''Nature'']\<rparr>],
     selectedSpots = [str ''gone''], fetchingSpots = False, userPreferences = None\<rparr>"

section \<open>The verification e-mail function\<close>

text \<open>
  \<open>send-verification-email/index.ts\<close>. The function joins texts and passes them on; it
  never looks into one beyond testing it for emptiness or for equality with a literal.
  Its texts are kept as the bytes of their UTF-8 encoding, a \<^typ>\<open>string\<close>, on
  which joining is the same operation. A request is read through its method, its body
  text (\<open>req.text()\<close>) and its headers.
\<close>

record request =
  req_method :: string
  req_body :: string
  req_headers :: "(string \<times> string) list"

text \<open>The fields that the handler takes out of the parsed body.\<close>

record hook_payload =
  user_email :: string
  token :: string
  token_hash :: string
  redirect_to :: string
  email_action_type :: string

text \<open>The argument of \<open>resend.emails.send\<close>.\<close>

record email_message =
  msg_from :: string
  msg_to :: "string list"
  subject :: string
  html :: string

text \<open>
  What \<open>resend.emails.send\<close> resolves to: an object with the fields \<open>data\<close> and
  \<open>error\<close>, one of them \<open>null\<close>; each is kept as the JSON text of its value. The
  client of version 4 reports a send that the provider refuses in \<open>error\<close>.
\<close>

record send_result =
  result_data :: "string option"
  result_error :: "string option"

text \<open>
  A response body is \<open>null\<close>, \<open>JSON.stringify(emailResponse)\<close> or
  \<open>JSON.stringify({ error: error.message })\<close>.
\<close>

datatype response_body =
    Body_null
  | Body_result send_result
  | Body_error string

record response =
  status :: nat
  headers :: "(string \<times> string) list"
  body :: response_body

text \<open>
  What the handler reads from and calls in its surroundings. An exception is a value:
  \<open>webhook_new secret\<close> and \<open>webhook_verify secret payload headers\<close> are \<open>Some\<close> of the
  error when \<open>new Webhook(secret)\<close> or \<open>wh.verify(payload, headers)\<close> throws;
  \<open>json_parse\<close> stands for \<open>JSON.parse\<close> followed by the destructuring and
  \<open>emails_send\<close> for \<open>resend.emails.send\<close>, each \<open>Inl\<close> of the message of the error
  thrown or \<open>Inr\<close> of the value.
\<close>

record environment =
  hookSecret :: "string option"
  SUPABASE_URL :: "string option"
  webhook_new :: "string \<Rightarrow> string option"
  webhook_verify :: "string \<Rightarrow> string \<Rightarrow> (string \<times> string) list \<Rightarrow> string option"
  json_parse :: "string \<Rightarrow> string + hook_payload"
  emails_send :: "email_message \<Rightarrow> string + send_result"

text \<open>What can be observed of a run besides the response, in order.\<close>

datatype event =
    Console_error string string
  | Console_log string send_result
  | Emails_send email_message

definition corsHeaders :: "(string \<times> string) list" where
  "corsHeaders =
     [(''Access-Control-Allow-Origin'', ''*''),
      (''Access-Control-Allow-Headers'', ''authorization, x-client-info, apikey, content-type'')]"

text \<open>A value of type \<open>string | undefined\<close> inside a template literal.\<close>

definition template_value :: "string option \<Rightarrow> string" where
  "template_value v = (case v of None \<Rightarrow> ''undefined'' | Some s \<Rightarrow> s)"

definition verificationLink :: "string option \<Rightarrow> hook_payload \<Rightarrow> string" where
  "verificationLink supabaseUrl p =
     template_value supabaseUrl @ ''/auth/v1/verify?token='' @ token_hash p
       @ ''&type='' @ email_action_type p @ ''&redirect_to='' @ redirect_to p"

text \<open>
  The three fixed pieces of the template literal \<open>emailHtml\<close>, around
  \<open>${verificationLink}\<close> and \<open>${token}\<close>. Characters outside ASCII are given by their
  UTF-8 bytes.
\<close>

definition emailHtml_head :: string where
  \<open>emailHtml_head = concat
     [''\<newline>'',
      ''      <!DOCTYPE html>\<newline>'',
      ''      <html>\<newline>'',
      ''        <head>\<newline>'',
      ''          <meta charset="utf-8">\<newline>'',
      ''          <meta name="viewport" content="width=device-width, initial-scale=1.0">\<newline>'',
      ''          <style>\<newline>'',
      ''            body { font-family: -apple-system, BlinkMacSystemFont, 'Segoe UI', Roboto, 'Helvetica Neue', Arial, sans-serif; margin: 0; padding: 0; background-color: #f6f9fc; }\<newline>'',
      ''            .container { max-width: 600px; margin: 0 auto; background-color: #ffffff; }\<newline>'',
      ''            .header { background: linear-gradient(135deg, #667eea 0%, #764ba2 100%); padding: 40px 20px; text-align: center; }\<newline>'',
      ''            .logo { width: 60px; height: 60px; background-color: white; border-radius: 50%; margin: 0 auto 20px; display: flex; align-items: center; justify-content: center; font-size: 30px; }\<newline>'',
      ''            .header-title { color: white; font-size: 28px; font-weight: bold; margin: 0; }\<newline>'',
      ''            .content { padding: 40px 30px; }\<newline>'',
      ''            .welcome { font-size: 20px; font-weight: 600; color: #1a1a1a; margin-bottom: 20px; }\<newline>'',
      ''            .message { font-size: 16px; color: #4a5568; line-height: 1.6; margin-bottom: 30px; }\<newline>'',
      ''            .button { display: inline-block; background: linear-gradient(135deg, #667eea 0%, #764ba2 100%); color: white; text-decoration: none; padding: 14px 40px; border-radius: 8px; font-weight: 600; font-size: 16px; transition: transform 0.2s; }\<newline>'',
      ''            .button:hover { transform: translateY(-2px); }\<newline>'',
      ''            .code-section { background-color: #f7fafc; border: 1px solid #e2e8f0; border-radius: 8px; padding: 20px; margin: 30px 0; text-align: center; }\<newline>'',
      ''            .code { font-family: 'Courier New', monospace; font-size: 24px; font-weight: bold; color: #2d3748; letter-spacing: 4px; }\<newline>'',
      ''            .footer { padding: 30px; text-align: center; color: #718096; font-size: 14px; border-top: 1px solid #e2e8f0; }\<newline>'',
      ''            .divider { text-align: center; margin: 30px 0; color: #cbd5e0; }\<newline>'',
      ''          </style>\<newline>'',
      ''        </head>\<newline>'',
      ''        <body>\<newline>'',
      ''          <div class="container">\<newline>'',
      ''            <div class="header">\<newline>'',
      ''              <div class="logo">'' @ [CHR 0xF0, CHR 0x9F, CHR 0x8C, CHR 0x8D] @ ''</div>\<newline>'',
      ''              <h1 class="header-title">Wanderer</h1>\<newline>'',
      ''            </div>\<newline>'',
      ''            \<newline>'',
      ''            <div class="content">\<newline>'',
      ''              <h2 class="welcome">Welcome to Wanderer!</h2>\<newline>'',
      ''              <p class="message">\<newline>'',
      ''                Thank you for signing up! We're excited to have you join our community of explorers. \<newline>'',
      ''                To get started, please verify your email address by clicking the button below.\<newline>'',
      ''              </p>\<newline>'',
      ''              \<newline>'',
      ''              <div style="text-align: center; margin: 30px 0;">\<newline>'',
      ''                <a href="'']\<close>

definition emailHtml_middle :: string where
  \<open>emailHtml_middle = concat
     [''" class="button">Verify Email Address</a>\<newline>'',
      ''              </div>\<newline>'',
      ''              \<newline>'',
      ''              <div class="divider">'' @ concat (replicate 5 [CHR 0xE2, CHR 0x94, CHR 0x80]) @ '' OR '' @ concat (replicate 5 [CHR 0xE2, CHR 0x94, CHR 0x80]) @ ''</div>\<newline>'',
      ''              \<newline>'',
      ''              <div class="code-section">\<newline>'',
      ''                <p style="margin: 0 0 10px 0; color: #4a5568; font-size: 14px;">Enter this code:</p>\<newline>'',
      ''                <div class="code">'']\<close>

definition emailHtml_tail :: string where
  \<open>emailHtml_tail = concat
     [''</div>\<newline>'',
      ''              </div>\<newline>'',
      ''              \<newline>'',
      ''              <p class="message" style="font-size: 14px; margin-top: 30px;">\<newline>'',
      ''                If you didn't create an account with Wanderer, you can safely ignore this email.\<newline>'',
      ''              </p>\<newline>'',
      ''            </div>\<newline>'',
      ''            \<newline>'',
      ''            <div class="footer">\<newline>'',
      ''              <p>'' @ [CHR 0xC2, CHR 0xA9] @ '' 2025 Wanderer. All rights reserved.</p>\<newline>'',
      ''              <p style="margin-top: 10px;">Your adventure companion for exploring the world.</p>\<newline>'',
      ''            </div>\<newline>'',
      ''          </div>\<newline>'',
      ''        </body>\<newline>'',
      ''      </html>\<newline>'',
      ''    '']\<close>

definition emailHtml :: "string \<Rightarrow> string \<Rightarrow> string" where
  "emailHtml link code = emailHtml_head @ link @ emailHtml_middle @ code @ emailHtml_tail"

definition verification_email :: "environment \<Rightarrow> hook_payload \<Rightarrow> email_message" where
  "verification_email env p =
     \<lparr>msg_from = ''Wanderer <onboarding@resend.dev>'',
      msg_to = [user_email p],
      subject = ''Verify your Wanderer account'',
      html = emailHtml (verificationLink (SUPABASE_URL env) p) (token p)\<rparr>"

text \<open>
  The block guarded by \<open>if (hookSecret)\<close>: \<open>Inl\<close> when the constructor throws, which the
  outer \<open>catch\<close> receives; otherwise the list of what the block logged.
\<close>

definition verify_signature ::
  "environment \<Rightarrow> string \<Rightarrow> (string \<times> string) list \<Rightarrow> string + event list" where
  "verify_signature env payload hdrs =
     (case hookSecret env of
        None \<Rightarrow> Inr []
      | Some secret \<Rightarrow>
          if secret = [] then Inr []
          else (case webhook_new env secret of
                  Some e \<Rightarrow> Inl e
                | None \<Rightarrow>
                    (case webhook_verify env secret payload hdrs of
                       Some err \<Rightarrow> Inr [Console_error ''Webhook verification failed:'' err]
                     | None \<Rightarrow> Inr [])))"

text \<open>The \<open>catch\<close> of the handler.\<close>

definition error_response :: "string \<Rightarrow> response" where
  "error_response msg =
     \<lparr>status = 500,
      headers = (''Content-Type'', ''application/json'') # corsHeaders,
      body = Body_error msg\<rparr>"

definition handler :: "environment \<Rightarrow> request \<Rightarrow> response \<times> event list" where
  "handler env req =
     (if req_method req = ''OPTIONS'' then
        (\<lparr>status = 200, headers = corsHeaders, body = Body_null\<rparr>, [])
      else
        (case verify_signature env (req_body req) (req_headers req) of
           Inl e \<Rightarrow>
             (error_response e, [Console_error ''Error sending verification email:'' e])
         | Inr logged \<Rightarrow>
             (case json_parse env (req_body req) of
                Inl e \<Rightarrow>
                  (error_response e,
                   logged @ [Console_error ''Error sending verification email:'' e])
              | Inr p \<Rightarrow>
                  (let message = verification_email env p
                   in case emails_send env message of
                        Inl e \<Rightarrow>
                          (error_response e,
                           logged @ [Emails_send message,
                                     Console_error ''Error sending verification email:'' e])
                      | Inr emailResponse \<Rightarrow>
                          (\<lparr>status = 200,
                            headers = (''Content-Type'', ''application/json'') # corsHeaders,
                            body = Body_result emailResponse\<rparr>,
                           logged @ [Emails_send message,
                                     Console_log ''Verification email sent successfully:''
                                       emailResponse])))))"

text \<open>Sample surroundings and a sample request for the e-mail function.\<close>

definition sample_payload :: hook_payload where
  "sample_payload = \<lparr>user_email = ''ana@example.com'', token = ''123456'',
     token_hash = ''abcdef'', redirect_to = ''https://app.example/welcome'',
     email_action_type = ''signup''\<rparr>"

definition sample_body :: string where
  \<open>sample_body = concat
     [''{"user":{"email":"ana@example.com"},'',
      ''"email_data":{"token":"123456","token_hash":"abcdef",'',
      ''"redirect_to":"https://app.example/welcome","email_action_type":"signup"}}'']\<close>

definition sample_request :: request where
  "sample_request = \<lparr>req_method = ''POST'', req_body = sample_body,
     req_headers = [(''content-type'', ''application/json''), (''webhook-id'', ''msg_2KWPBgLlAfxdpx2AI54pPJ85f4W''),
                    (''webhook-timestamp'', ''1700000000''),
                    (''webhook-signature'', ''v1,K5oZfzN95Z9UVu1EsfQmfVNQhnkZ2pj9o9NDN/H/pI4='')]\<rparr>"

text \<open>A send that the provider accepts, and one that it refuses.\<close>

definition sent_result :: send_result where
  \<open>sent_result = \<lparr>result_data = Some ''{"id":"49a3999c-0ce1-4ea6-ab68-afcd6dc2e794"}'',
     result_error = None\<rparr>\<close>

definition refused_result :: send_result where
  \<open>refused_result = \<lparr>result_data = None,
     result_error = Some (concat
       [''{"statusCode":403,"name":"validation_error",'',
        ''"message":"You can only send testing emails to your own email address"}''])\<rparr>\<close>

text \<open>
  Surroundings in which the secret decodes, the signature verifies or not, the sample
  body parses to the sample payload, and the send has the given outcome.
\<close>

definition sample_env :: "bool \<Rightarrow> string + send_result \<Rightarrow> environment" where
  "sample_env verify_throws send_outcome =
     \<lparr>hookSecret = Some ''whsec_MfKQ9r8GKYqrTwjUPD8ILPZIo2LaLaSw'',
      SUPABASE_URL = Some ''https://proj.supabase.co'',
      webhook_new = (\<lambda>_. None),
      webhook_verify =
        (\<lambda>_ _ _. if verify_throws then Some ''No matching signature found'' else None),
      json_parse =
        (\<lambda>text. if text = sample_body then Inr sample_payload
                else Inl ''Unexpected end of JSON input''),
      emails_send = (\<lambda>_. send_outcome)\<rparr>"

section \<open>Facts about rounding and doubles\<close>

lemma round_even_of_int [simp]: "round_even (of_int n) = n"
  by (simp add: round_even_def)

lemma round_even_cases: "round_even x = \<lfloor>x\<rfloor> \<or> round_even x = \<lfloor>x\<rfloor> + 1 \<and> of_int \<lfloor>x\<rfloor> < x"
  by (auto simp: round_even_def Let_def)

lemma round_even_lower: "of_int a \<le> x \<Longrightarrow> a \<le> round_even x"
proof -
  assume "of_int a \<le> x"
  then have "a \<le> \<lfloor>x\<rfloor>" by (simp add: le_floor_iff)
  with round_even_cases [of x] show ?thesis by auto
qed

lemma round_even_upper: "x \<le> of_int b \<Longrightarrow> round_even x \<le> b"
proof -
  assume b: "x \<le> of_int b"
  then have f: "\<lfloor>x\<rfloor> \<le> b" by (simp add: floor_le_iff)
  from round_even_cases [of x] show ?thesis
  proof
    assume "round_even x = \<lfloor>x\<rfloor>"
    with f show ?thesis by simp
  next
    assume r: "round_even x = \<lfloor>x\<rfloor> + 1 \<and> of_int \<lfloor>x\<rfloor> < x"
    with b have "real_of_int \<lfloor>x\<rfloor> < of_int b" by linarith
    then have "\<lfloor>x\<rfloor> < b" by simp
    with r show ?thesis by simp
  qed
qed

lemma binade_bounds:
  assumes "x \<noteq> 0"
  shows "power_int 2 (binade x) \<le> \<bar>x\<bar>" and "\<bar>x\<bar> < power_int 2 (binade x + 1)"
proof -
  show "power_int 2 (binade x) \<le> \<bar>x\<bar>"
  proof (cases "1 \<le> \<bar>x\<bar>")
    case True
    define n where "n = nat \<lfloor>\<bar>x\<bar>\<rfloor>"
    from True have n: "0 < n" "real n \<le> \<bar>x\<bar>" by (auto simp: n_def)
    have fl: "0 < floorlog 2 n" using n by (simp add: floorlog_def)
    from floorlog_bounds [of n 2] n have "2 ^ (floorlog 2 n - 1) \<le> n" by simp
    then have "(2::real) ^ (floorlog 2 n - 1) \<le> real n"
      by (metis of_nat_le_iff of_nat_numeral of_nat_power)
    then have r: "(2::real) ^ (floorlog 2 n - 1) \<le> \<bar>x\<bar>"
      using n(2) by (rule order_trans)
    have "binade x = int (floorlog 2 n - 1)"
      using True fl by (simp add: binade_def n_def)
    then have "power_int (2::real) (binade x) = 2 ^ (floorlog 2 n - 1)"
      by (simp only: power_int_of_nat)
    with r show ?thesis by (simp only:)
  next
    case False
    define c where "c = \<lceil>1 / \<bar>x\<bar>\<rceil>"
    define m where "m = nat (c - 1)"
    define t where "t = floorlog 2 m"
    from False assms have y: "1 < 1 / \<bar>x\<bar>" by simp
    then have c: "2 \<le> c" unfolding c_def by linarith
    then have m: "0 < m" by (simp add: m_def)
    have "1 / \<bar>x\<bar> \<le> of_int c" unfolding c_def by (rule le_of_int_ceiling)
    also have "\<dots> = real m + 1" using c by (simp add: m_def)
    finally have ym: "1 / \<bar>x\<bar> \<le> real m + 1" .
    from floorlog_bounds [of m 2] m have "m < 2 ^ t" by (simp add: t_def)
    then have "m + 1 \<le> 2 ^ t" by simp
    then have "real (m + 1) \<le> real (2 ^ t)" by (simp only: of_nat_le_iff)
    then have "real m + 1 \<le> 2 ^ t" by simp
    with ym have "1 / \<bar>x\<bar> \<le> 2 ^ t" by linarith
    then have r: "1 / 2 ^ t \<le> \<bar>x\<bar>" using assms
      by (simp add: field_simps)
    have "binade x = - int t" using False by (simp add: binade_def m_def t_def c_def)
    then have "power_int (2::real) (binade x) = 1 / 2 ^ t"
      by (simp only: power_int_minus power_int_of_nat inverse_eq_divide)
    with r show ?thesis by (simp only:)
  qed
  show "\<bar>x\<bar> < power_int 2 (binade x + 1)"
  proof (cases "1 \<le> \<bar>x\<bar>")
    case True
    define n where "n = nat \<lfloor>\<bar>x\<bar>\<rfloor>"
    from True have n: "0 < n" by (auto simp: n_def)
    have x: "\<bar>x\<bar> < real n + 1" by (simp add: n_def)
    have fl: "0 < floorlog 2 n" using n by (simp add: floorlog_def)
    from floorlog_bounds [of n 2] n have "n < 2 ^ floorlog 2 n" by simp
    then have "n + 1 \<le> 2 ^ floorlog 2 n" by simp
    then have "real (n + 1) \<le> real (2 ^ floorlog 2 n)" by (simp only: of_nat_le_iff)
    then have "real n + 1 \<le> 2 ^ floorlog 2 n" by simp
    with x have r: "\<bar>x\<bar> < 2 ^ floorlog 2 n" by linarith
    have "binade x + 1 = int (floorlog 2 n)"
      using True fl by (simp add: binade_def n_def)
    then have "power_int (2::real) (binade x + 1) = 2 ^ floorlog 2 n"
      by (simp only: power_int_of_nat)
    with r show ?thesis by (simp only:)
  next
    case False
    define c where "c = \<lceil>1 / \<bar>x\<bar>\<rceil>"
    define m where "m = nat (c - 1)"
    define t where "t = floorlog 2 m"
    from False assms have y: "1 < 1 / \<bar>x\<bar>" by simp
    then have c: "2 \<le> c" unfolding c_def by linarith
    then have m: "0 < m" by (simp add: m_def)
    have "of_int c - 1 < 1 / \<bar>x\<bar>" unfolding c_def by linarith
    moreover have "of_int c - 1 = real m" using c by (simp add: m_def)
    ultimately have my: "real m < 1 / \<bar>x\<bar>" by simp
    have t: "0 < t" using m by (simp add: t_def floorlog_def)
    from floorlog_bounds [of m 2] m have "2 ^ (t - 1) \<le> m" by (simp add: t_def)
    then have "(2::real) ^ (t - 1) \<le> real m"
      by (metis of_nat_le_iff of_nat_numeral of_nat_power)
    with my have "2 ^ (t - 1) < 1 / \<bar>x\<bar>" by linarith
    then have lt: "\<bar>x\<bar> < 1 / 2 ^ (t - 1)" using assms
      by (simp add: field_simps)
    have "binade x + 1 = - int (t - 1)" using False t by (simp add: binade_def m_def t_def c_def)
    then have "power_int (2::real) (binade x + 1) = 1 / 2 ^ (t - 1)"
      by (simp only: power_int_minus power_int_of_nat inverse_eq_divide)
    with lt show ?thesis by (simp only:)
  qed
qed



lemma binade_unique:
  assumes "x \<noteq> 0" and lo: "power_int 2 e \<le> \<bar>x\<bar>" and hi: "\<bar>x\<bar> < power_int 2 (e + 1)"
  shows "binade x = e"
proof (rule antisym)
  show "binade x \<le> e"
  proof (rule ccontr)
    assume "\<not> binade x \<le> e"
    then have "e + 1 \<le> binade x" by simp
    then have "power_int (2::real) (e + 1) \<le> power_int 2 (binade x)"
      by (rule power_int_increasing) simp
    with binade_bounds(1) [OF assms(1)] hi show False by linarith
  qed
  show "e \<le> binade x"
  proof (rule ccontr)
    assume "\<not> e \<le> binade x"
    then have "binade x + 1 \<le> e" by simp
    then have "power_int (2::real) (binade x + 1) \<le> power_int 2 e"
      by (rule power_int_increasing) simp
    with binade_bounds(2) [OF assms(1)] lo show False by linarith
  qed
qed


lemma binade_scale:
  assumes "x \<noteq> 0"
  shows "binade (x * power_int 2 j) = binade x + j"
proof (rule binade_unique)
  have p: "0 < power_int (2::real) j" by simp
  then show "x * power_int 2 j \<noteq> 0" using assms by simp
  have a: "\<bar>x * power_int 2 j\<bar> = \<bar>x\<bar> * power_int 2 j"
    using p by (simp add: abs_mult)
  have "power_int 2 (binade x) * power_int 2 j \<le> \<bar>x\<bar> * power_int 2 j"
    using binade_bounds(1) [OF assms] p by (simp only: mult_le_cancel_right_pos)
  then show "power_int 2 (binade x + j) \<le> \<bar>x * power_int 2 j\<bar>"
    by (simp add: a power_int_add)
  have "\<bar>x\<bar> * power_int 2 j < power_int 2 (binade x + 1) * power_int 2 j"
    using binade_bounds(2) [OF assms] p by (simp only: mult_less_cancel_right_pos)
  moreover have "power_int (2::real) (binade x + j + 1) = power_int 2 (binade x + 1) * power_int 2 j"
    by (simp add: power_int_add)
  ultimately show "\<bar>x * power_int 2 j\<bar> < power_int 2 (binade x + j + 1)"
    by (simp only: a)
qed


lemma fl64_scale: "fl64 (x * power_int 2 j) = fl64 x * power_int 2 j"
proof (cases "x = 0")
  case True
  then show ?thesis by (simp add: fl64_def)
next
  case False
  have p: "power_int (2::real) j \<noteq> 0" by simp
  have u: "power_int (2::real) (binade x + j - 52) = power_int 2 (binade x - 52) * power_int 2 j"
    by (simp add: power_int_add power_int_diff)
  have q: "x * power_int 2 j / (power_int 2 (binade x - 52) * power_int 2 j)
      = x / power_int 2 (binade x - 52)"
    using p by simp
  from False p have "x * power_int 2 j \<noteq> 0" by simp
  then show ?thesis
    using False by (simp add: fl64_def Let_def binade_scale u q)
qed


lemma fl64_half: "fl64 (x / 2) = fl64 x / 2"
  using fl64_scale [of x "- 1"] by (simp add: power_int_minus field_simps)


lemma abs_of_int_le_power: "\<bar>n\<bar> \<le> 2 ^ k \<longleftrightarrow> \<bar>real_of_int n\<bar> \<le> 2 ^ k"
proof -
  have "\<bar>real_of_int n\<bar> \<le> 2 ^ k \<longleftrightarrow> real_of_int \<bar>n\<bar> \<le> real_of_int (2 ^ k)"
    by simp
  also have "\<dots> \<longleftrightarrow> \<bar>n\<bar> \<le> 2 ^ k"
    by (rule of_int_le_iff)
  finally show ?thesis by simp
qed

lemma fl64_of_int:
  assumes "\<bar>n\<bar> \<le> 2 ^ 53"
  shows "fl64 (of_int n) = of_int n"
proof (cases "n = 0")
  case True
  then show ?thesis by (simp add: fl64_def)
next
  case False
  define e where "e = binade (of_int n)"
  define u :: real where "u = power_int 2 (e - 52)"
  from False have nz: "real_of_int n \<noteq> 0" by simp
  have lo: "power_int 2 e \<le> \<bar>real_of_int n\<bar>"
    unfolding e_def by (rule binade_bounds(1) [OF nz])
  have hi: "\<bar>real_of_int n\<bar> \<le> 2 ^ 53"
    using assms by (simp only: abs_of_int_le_power)
  have e53: "e \<le> 53"
  proof (rule ccontr)
    assume "\<not> e \<le> 53"
    then have "53 < e" by simp
    then have "power_int (2::real) 53 < power_int 2 e"
      by (rule power_int_strict_increasing) simp
    with lo hi show False by simp
  qed
  have f: "fl64 (of_int n) = of_int (round_even (of_int n / u)) * u"
    using nz by (simp add: fl64_def Let_def e_def u_def)
  show ?thesis
  proof (cases "e \<le> 52")
    case True
    define s where "s = nat (52 - e)"
    from True have "e - 52 = - int s" by (simp add: s_def)
    then have ui: "u = inverse (2 ^ s)"
      unfolding u_def by (simp only: power_int_minus power_int_of_nat)
    have u: "u * 2 ^ s = 1"
      by (simp add: ui)
    have q: "of_int n / u = of_int (n * 2 ^ s)"
      by (simp add: ui divide_inverse)
    have "fl64 (of_int n) = of_int (n * 2 ^ s) * u"
      by (simp only: f q round_even_of_int)
    also have "\<dots> = of_int n * (u * 2 ^ s)" by simp
    finally show ?thesis by (simp only: u mult_1_right)
  next
    case False
    with e53 have e: "e = 53" by simp
    with lo have "2 ^ 53 \<le> \<bar>real_of_int n\<bar>" by simp
    with hi have a: "\<bar>real_of_int n\<bar> = 2 ^ 53" by (rule order_antisym)
    have u2: "u = 2" by (simp add: u_def e)
    from a have "real_of_int n = 2 ^ 53 \<or> real_of_int n = - (2 ^ 53)" by linarith
    then show ?thesis
    proof
      assume n: "real_of_int n = 2 ^ 53"
      have "real_of_int n / u = of_int (2 ^ 52)" by (simp add: n u2)
      then have "fl64 (of_int n) = of_int (2 ^ 52) * 2"
        by (simp only: f round_even_of_int u2)
      then show ?thesis by (simp add: n)
    next
      assume n: "real_of_int n = - (2 ^ 53)"
      have "real_of_int n / u = of_int (- (2 ^ 52))" by (simp add: n u2)
      then have "fl64 (of_int n) = of_int (- (2 ^ 52)) * 2"
        by (simp only: f round_even_of_int u2)
      then show ?thesis by (simp add: n)
    qed
  qed
qed

lemma fl64_mantissa:
  assumes "x \<noteq> 0"
  shows "\<bar>round_even (x / power_int 2 (binade x - 52))\<bar> \<le> 2 ^ 53"
    and "2 ^ 52 \<le> \<bar>round_even (x / power_int 2 (binade x - 52))\<bar>"
proof -
  define u :: real where "u = power_int 2 (binade x - 52)"
  have u: "0 < u" by (simp add: u_def)
  have "binade x = 52 + (binade x - 52)" by simp
  then have "power_int (2::real) (binade x) = power_int 2 (52 + (binade x - 52))"
    by (simp only:)
  also have "\<dots> = 2 ^ 52 * u"
    unfolding u_def by (subst power_int_add) simp_all
  finally have lo: "2 ^ 52 * u \<le> \<bar>x\<bar>"
    using binade_bounds(1) [OF assms] by simp
  have "binade x + 1 = 53 + (binade x - 52)" by simp
  then have "power_int (2::real) (binade x + 1) = power_int 2 (53 + (binade x - 52))"
    by (simp only:)
  also have "\<dots> = 2 ^ 53 * u"
    unfolding u_def by (subst power_int_add) simp_all
  finally have hi: "\<bar>x\<bar> < 2 ^ 53 * u"
    using binade_bounds(2) [OF assms] by simp
  have a: "\<bar>x / u\<bar> = \<bar>x\<bar> / u" using u by simp
  from lo u have l: "2 ^ 52 \<le> \<bar>x / u\<bar>"
    unfolding a by (simp only: pos_le_divide_eq)
  from hi u have h: "\<bar>x / u\<bar> < 2 ^ 53"
    unfolding a by (simp only: pos_divide_less_eq)
  from h have h1: "x / u \<le> 2 ^ 53" and h2: "- (2 ^ 53) \<le> x / u" by linarith+
  from h1 have "x / u \<le> of_int (2 ^ 53)" by simp
  then have k1: "round_even (x / u) \<le> 2 ^ 53" by (rule round_even_upper)
  from h2 have "of_int (- (2 ^ 53)) \<le> x / u" by simp
  then have k2: "- (2 ^ 53) \<le> round_even (x / u)" by (rule round_even_lower)
  from k1 k2 show "\<bar>round_even (x / power_int 2 (binade x - 52))\<bar> \<le> 2 ^ 53"
    unfolding u_def by simp
  from l have "2 ^ 52 \<le> x / u \<or> x / u \<le> - (2 ^ 52)" by linarith
  then have "of_int (2 ^ 52) \<le> x / u \<or> x / u \<le> of_int (- (2 ^ 52))" by simp
  then have "2 ^ 52 \<le> round_even (x / u) \<or> round_even (x / u) \<le> - (2 ^ 52)"
    using round_even_lower [of "2 ^ 52" "x / u"] round_even_upper [of "x / u" "- (2 ^ 52)"]
    by blast
  then show "2 ^ 52 \<le> \<bar>round_even (x / power_int 2 (binade x - 52))\<bar>"
    unfolding u_def by linarith
qed

lemma fl64_idem: "fl64 (fl64 x) = fl64 x"
proof (cases "x = 0")
  case True
  then show ?thesis by (simp add: fl64_def)
next
  case False
  define k where "k = round_even (x / power_int 2 (binade x - 52))"
  have f: "fl64 x = of_int k * power_int 2 (binade x - 52)"
    using False by (simp add: fl64_def Let_def k_def)
  have "\<bar>k\<bar> \<le> 2 ^ 53"
    unfolding k_def by (rule fl64_mantissa(1) [OF False])
  then have "fl64 (of_int k) = of_int k" by (rule fl64_of_int)
  then show ?thesis by (simp only: f fl64_scale)
qed

lemma fl64_0 [simp]: "fl64 0 = 0"
  by (simp add: fl64_def)

lemma fl64_of_nat: "n \<le> 2 ^ 53 \<Longrightarrow> fl64 (of_nat n) = of_nat n"
  using fl64_of_int [of "int n"] by simp

lemma fl64_eq_0_iff: "fl64 x = 0 \<longleftrightarrow> x = 0"
proof
  assume z: "fl64 x = 0"
  show "x = 0"
  proof (rule ccontr)
    assume nz: "x \<noteq> 0"
    from fl64_mantissa(2) [OF nz] have "round_even (x / power_int 2 (binade x - 52)) \<noteq> 0"
      by auto
    with nz z show False by (simp add: fl64_def Let_def)
  qed
qed simp


lemma fl64_numeral [simp]: "(numeral k :: nat) \<le> 2 ^ 53 \<Longrightarrow> fl64 (numeral k) = numeral k"
  using fl64_of_nat [of "numeral k"] by simp

lemma fl64_1 [simp]: "fl64 1 = 1"
  using fl64_of_nat [of 1] by simp

lemma fl64_real_of [simp]: "fl64 (real_of d) = real_of d"
  using real_of [of d] by simp

lemma real_of_dbl: "real_of (dbl x) = fl64 x"
  by (simp add: dbl_def Abs_double_inverse fl64_idem)

text \<open>For evaluation, a double is represented by the real it denotes.\<close>

lemma Abs_double_real_of [code abstype]: "Abs_double (real_of d) = d"
  by (rule real_of_inverse)

lemma real_of_dbl_code [code abstract]: "real_of (dbl x) = fl64 x"
  by (rule real_of_dbl)

lemma real_of_dbl_nat: "n \<le> 2 ^ 53 \<Longrightarrow> real_of (dbl (real n)) = real n"
  by (simp add: real_of_dbl fl64_of_nat)

lemma real_of_dbl_0 [simp]: "real_of (dbl 0) = 0"
  by (simp add: real_of_dbl)

lemma real_of_dbl_2 [simp]: "real_of (dbl 2) = 2"
  using real_of_dbl_nat [of 2] by simp

lemma real_of_dbl_3 [simp]: "real_of (dbl 3) = 3"
  using real_of_dbl_nat [of 3] by simp

lemma real_of_js_add: "real_of (js_add a b) = fl64 (real_of a + real_of b)"
  by (simp add: js_add_def real_of_dbl)

lemma real_of_js_mul: "real_of (js_mul a b) = fl64 (real_of a * real_of b)"
  by (simp add: js_mul_def real_of_dbl)

lemma real_of_js_half: "real_of (js_half a) = real_of a / 2"
  by (simp add: js_half_def real_of_dbl fl64_half)

lemma js_add_0_left [simp]: "js_add (dbl 0) b = b"
  by (simp add: real_of_inject [symmetric] real_of_js_add)

lemma js_add_nat:
  "real_of a = real m \<Longrightarrow> real_of b = real n \<Longrightarrow> m + n \<le> 2 ^ 53
     \<Longrightarrow> real_of (js_add a b) = real (m + n)"
  using fl64_of_nat [of "m + n"] by (simp add: real_of_js_add)

lemma js_mul_nat:
  "real_of a = real m \<Longrightarrow> real_of b = real n \<Longrightarrow> m * n \<le> 2 ^ 53
     \<Longrightarrow> real_of (js_mul a b) = real (m * n)"
  using fl64_of_nat [of "m * n"] by (simp add: js_mul_def real_of_dbl)

section \<open>Facts about the built-in Set\<close>

lemma set_has_iff: "set_has s x \<longleftrightarrow> x \<in> set s"
  by (simp add: set_has_def)

lemma set_set_add: "set (set_add s x) = insert x (set s)"
  by (auto simp: set_add_def set_has_iff)

lemma set_set_delete: "set (set_delete s x) = set s - {x}"
  by (simp add: set_delete_def)

lemma distinct_set_add: "distinct s \<Longrightarrow> distinct (set_add s x)"
  by (simp add: set_add_def set_has_iff)

lemma foldl_set_add_set: "set (foldl set_add acc xs) = set acc \<union> set xs"
  by (induction xs arbitrary: acc) (auto simp: set_set_add)

lemma foldl_set_add_distinct: "distinct acc \<Longrightarrow> distinct (foldl set_add acc xs)"
  by (induction xs arbitrary: acc) (auto simp: distinct_set_add)

lemma set_new_Set: "set (new_Set xs) = set xs"
  by (simp add: new_Set_def foldl_set_add_set)

lemma distinct_new_Set: "distinct (new_Set xs)"
  by (simp add: new_Set_def foldl_set_add_distinct)

lemma length_foldl_set_add: "length (foldl set_add acc xs) \<le> length acc + length xs"
proof (induction xs arbitrary: acc)
  case Nil
  show ?case by simp
next
  case (Cons x xs)
  have "length (foldl set_add (set_add acc x) xs) \<le> length (set_add acc x) + length xs"
    by (rule Cons.IH)
  also have "length (set_add acc x) \<le> Suc (length acc)"
    by (simp add: set_add_def)
  finally show ?case by simp
qed

lemma length_new_Set: "length (new_Set xs) \<le> length xs"
  using length_foldl_set_add [of "[]" xs] by (simp add: new_Set_def)

section \<open>Properties of \<open>toggleSpot\<close>\<close>

lemma toggleSpot_members:
  "set (selectedSpots (toggleSpot i st)) =
     (if i \<in> set (selectedSpots st) then set (selectedSpots st) - {i}
      else insert i (set (selectedSpots st)))"
  by (simp add: toggleSpot_def Let_def set_has_iff set_new_Set set_set_add set_set_delete)

text \<open>
  Claim C7. One \<open>toggleSpot\<close> removes the identifier from the selection when it is a
  member and inserts it otherwise; two in a row with the same identifier give back the
  membership of every identifier, and nothing but the selection changes.
\<close>

theorem toggleSpot_involution:
  "set (selectedSpots (toggleSpot i st)) =
     (if i \<in> set (selectedSpots st) then set (selectedSpots st) - {i}
      else insert i (set (selectedSpots st)))
   \<and> set (selectedSpots (toggleSpot i (toggleSpot i st))) = set (selectedSpots st)
   \<and> set_has (selectedSpots (toggleSpot i (toggleSpot i st))) j = set_has (selectedSpots st) j
   \<and> toggleSpot i st = st\<lparr>selectedSpots := selectedSpots (toggleSpot i st)\<rparr>"
proof -
  have two: "set (selectedSpots (toggleSpot i (toggleSpot i st))) = set (selectedSpots st)"
    by (auto simp: toggleSpot_members)
  have rest: "toggleSpot i st = st\<lparr>selectedSpots := selectedSpots (toggleSpot i st)\<rparr>"
    by (simp add: toggleSpot_def Let_def)
  from two rest show ?thesis
    by (simp add: toggleSpot_members set_has_iff)
qed

section \<open>Properties of \<open>scoreSpot\<close>\<close>

text \<open>
  The blocks before the rating boost add whole numbers, and whole numbers of this size
  are doubles: with arrays of fewer than \<open>2 ^ 32\<close> entries, as JavaScript arrays are,
  no addition of these blocks rounds.
\<close>

lemma category_matching_nat:
  assumes "real_of acc = real n" and "n \<le> 2 ^ 40"
    and "length acts < 2 ^ 32"
  shows "real_of (category_matching lower (prefs\<lparr>preferredActivities := Some acts\<rparr>) s acc)
           = real (n + 3 * length (filter (activity_matches lower s) acts))"
proof -
  define m where "m = length (filter (activity_matches lower s) acts)"
  have "m \<le> length acts" unfolding m_def by (rule length_filter_le)
  with assms(3) have m: "m < 2 ^ 32" by simp
  then have "real_of (dbl (real m)) = real m" by (simp add: real_of_dbl_nat)
  moreover have "real_of (dbl 3) = real 3" by simp
  moreover from m have "m * 3 \<le> 2 ^ 53" by simp
  ultimately have p: "real_of (js_mul (dbl (real m)) (dbl 3)) = real (m * 3)"
    by (rule js_mul_nat)
  from assms(2) m have "n + m * 3 \<le> 2 ^ 53" by simp
  with assms(1) p have "real_of (js_add acc (js_mul (dbl (real m)) (dbl 3))) = real (n + m * 3)"
    by (rule js_add_nat)
  then show ?thesis
    by (simp add: category_matching_def Let_def m_def mult.commute)
qed

lemma category_matching_skipped [simp]:
  "category_matching lower (prefs\<lparr>preferredActivities := None\<rparr>) s acc = acc"
  by (simp add: category_matching_def)

lemma later_blocks_nat:
  assumes len: "length (scenery_type s) < 2 ^ 32"
  shows "\<exists>k. \<forall>acc n. real_of acc = real n \<longrightarrow> n \<le> 2 ^ 40 \<longrightarrow>
    real_of (hidden_gems_preference prefs s
              (scenery_type_matching prefs s (budget_level_matching lower prefs s acc)))
      = real (n + k)"
proof -
  define kb :: nat where "kb =
    (case (budgetRange prefs, budget_level s) of
       (Some wanted, Some level) \<Rightarrow>
          if wanted \<noteq> [] \<and> level \<noteq> [] \<and> lower level = lower wanted then 2 else 0
     | _ \<Rightarrow> 0)"
  define ks :: nat where "ks =
    (case sceneryType prefs of
       None \<Rightarrow> 0
     | Some wanted \<Rightarrow> length (filter (\<lambda>scenery. arr_includes wanted scenery) (scenery_type s)) * 2)"
  define kg :: nat where "kg = (if hiddenGems prefs = Some True \<and> is_hidden_gem s then 2 else 0)"
  have two: "real_of (dbl 2) = real 2" by simp
  have b: "real_of (budget_level_matching lower prefs s acc) = real (n + kb)"
    if "real_of acc = real n" "n \<le> 2 ^ 41" for acc n
  proof -
    from that(2) have "n + 2 \<le> 2 ^ 53" by simp
    with that(1) two have "real_of (js_add acc (dbl 2)) = real (n + 2)"
      by (rule js_add_nat)
    with that(1) show ?thesis
      by (simp add: budget_level_matching_def kb_def split: option.splits)
  qed
  have kb: "kb \<le> 2" by (simp add: kb_def split: option.splits)
  have ks: "ks \<le> 2 ^ 33"
  proof (cases "sceneryType prefs")
    case None
    then show ?thesis by (simp add: ks_def)
  next
    case (Some wanted)
    define m where "m = length (filter (\<lambda>scenery. arr_includes wanted scenery) (scenery_type s))"
    have "m \<le> length (scenery_type s)" unfolding m_def by (rule length_filter_le)
    with len have "m * 2 \<le> 2 ^ 33" by simp
    moreover from Some have "ks = m * 2" by (simp add: ks_def m_def)
    ultimately show ?thesis by (simp only:)
  qed
  have sc: "real_of (scenery_type_matching prefs s acc) = real (n + ks)"
    if "real_of acc = real n" "n \<le> 2 ^ 42" for acc n
  proof (cases "sceneryType prefs")
    case None
    with that(1) show ?thesis by (simp add: scenery_type_matching_def ks_def)
  next
    case (Some wanted)
    define m where "m = length (filter (\<lambda>scenery. arr_includes wanted scenery) (scenery_type s))"
    have "m \<le> length (scenery_type s)" unfolding m_def by (rule length_filter_le)
    with len have m: "m < 2 ^ 32" by simp
    then have "real_of (dbl (real m)) = real m" by (simp add: real_of_dbl_nat)
    moreover note two
    moreover from m have "m * 2 \<le> 2 ^ 53" by simp
    ultimately have p: "real_of (js_mul (dbl (real m)) (dbl 2)) = real (m * 2)"
      by (rule js_mul_nat)
    from that(2) m have "n + m * 2 \<le> 2 ^ 53" by simp
    with that(1) p have "real_of (js_add acc (js_mul (dbl (real m)) (dbl 2))) = real (n + m * 2)"
      by (rule js_add_nat)
    with Some show ?thesis
      by (simp add: scenery_type_matching_def Let_def ks_def m_def)
  qed
  have g: "real_of (hidden_gems_preference prefs s acc) = real (n + kg)"
    if "real_of acc = real n" "n \<le> 2 ^ 43" for acc n
  proof -
    from that(2) have "n + 2 \<le> 2 ^ 53" by simp
    with that(1) two have "real_of (js_add acc (dbl 2)) = real (n + 2)"
      by (rule js_add_nat)
    with that(1) show ?thesis
      by (simp add: hidden_gems_preference_def kg_def)
  qed
  show ?thesis
  proof (intro exI [of _ "kb + ks + kg"] allI impI)
    fix acc n
    assume s: "real_of acc = real n" and n: "n \<le> 2 ^ 40"
    from n have "n \<le> 2 ^ 41" by simp
    with s have 1: "real_of (budget_level_matching lower prefs s acc) = real (n + kb)"
      by (rule b)
    from n kb have "n + kb \<le> 2 ^ 42" by simp
    with 1 have 2: "real_of (scenery_type_matching prefs s
        (budget_level_matching lower prefs s acc)) = real (n + kb + ks)"
      by (rule sc)
    from n kb ks have "n + kb + ks \<le> 2 ^ 43" by simp
    with 2 have "real_of (hidden_gems_preference prefs s (scenery_type_matching prefs s
        (budget_level_matching lower prefs s acc))) = real (n + kb + ks + kg)"
      by (rule g)
    then show "real_of (hidden_gems_preference prefs s (scenery_type_matching prefs s
        (budget_level_matching lower prefs s acc))) = real (n + (kb + ks + kg))"
      by (simp add: add.assoc)
  qed
qed

lemma activity_matches_rating [simp]:
  "activity_matches lower (s\<lparr>rating := x\<rparr>) = activity_matches lower s"
  by (rule ext) (simp add: activity_matches_def)

lemma later_blocks_activities [simp]:
  "budget_level_matching lower (prefs\<lparr>preferredActivities := x\<rparr>) s
     = budget_level_matching lower prefs s"
  "scenery_type_matching (prefs\<lparr>preferredActivities := x\<rparr>) s = scenery_type_matching prefs s"
  "hidden_gems_preference (prefs\<lparr>preferredActivities := x\<rparr>) s = hidden_gems_preference prefs s"
  by (rule ext, simp add: budget_level_matching_def scenery_type_matching_def
      hidden_gems_preference_def)+

lemma blocks_rating [simp]:
  "category_matching lower prefs (s\<lparr>rating := x\<rparr>) = category_matching lower prefs s"
  "budget_level_matching lower prefs (s\<lparr>rating := x\<rparr>) = budget_level_matching lower prefs s"
  "scenery_type_matching prefs (s\<lparr>rating := x\<rparr>) = scenery_type_matching prefs s"
  "hidden_gems_preference prefs (s\<lparr>rating := x\<rparr>) = hidden_gems_preference prefs s"
  by (rule ext, simp add: category_matching_def budget_level_matching_def
      scenery_type_matching_def hidden_gems_preference_def Let_def split: option.splits)+

lemma scoreSpot_rating_boost:
  "scoreSpot lower r (Some prefs) s
     = rating_boost s (scoreSpot lower r (Some prefs) (s\<lparr>rating := None\<rparr>))"
  by (simp add: scoreSpot_def Let_def) (simp add: rating_boost_def)

lemma scoreSpot_unrated_activities:
  assumes "length acts < 2 ^ 32" and "length (scenery_type s) < 2 ^ 32"
  shows "real_of (scoreSpot lower r (Some (prefs\<lparr>preferredActivities := Some acts\<rparr>))
                   (s\<lparr>rating := None\<rparr>))
       = 3 * real (length (filter (activity_matches lower s) acts))
         + real_of (scoreSpot lower r (Some (prefs\<lparr>preferredActivities := None\<rparr>))
                      (s\<lparr>rating := None\<rparr>))"
proof -
  from later_blocks_nat [OF assms(2), of prefs lower]
  obtain k where k: "\<And>acc n. real_of acc = real n \<Longrightarrow> n \<le> 2 ^ 40 \<Longrightarrow>
    real_of (hidden_gems_preference prefs s
              (scenery_type_matching prefs s (budget_level_matching lower prefs s acc)))
      = real (n + k)"
    by blast
  define m where "m = length (filter (activity_matches lower s) acts)"
  have "m \<le> length acts" unfolding m_def by (rule length_filter_le)
  with assms(1) have m: "3 * m \<le> 2 ^ 40" by simp
  have z: "real_of (dbl 0) = real 0" by simp
  have c: "real_of (category_matching lower (prefs\<lparr>preferredActivities := Some acts\<rparr>) s (dbl 0))
      = real (0 + 3 * m)"
    unfolding m_def using z _ assms(1) by (rule category_matching_nat) simp
  then have c': "real_of (category_matching lower (prefs\<lparr>preferredActivities := Some acts\<rparr>) s (dbl 0))
      = real (3 * m)" by simp
  from k [OF c' m] k [OF z]
  show ?thesis
    by (simp add: scoreSpot_def Let_def rating_boost_def m_def)
qed

lemma scoreSpot_no_signal:
  "real_of (scoreSpot lower r (Some no_preferences) s)
     = (case rating s of None \<Rightarrow> 0 | Some x \<Rightarrow> real_of x / 2)"
  by (simp add: scoreSpot_def no_preferences_def Let_def category_matching_def
      budget_level_matching_def scenery_type_matching_def hidden_gems_preference_def
      rating_boost_def real_of_js_half split: option.splits)

lemma fl64_rounds_sum: "fl64 (3 + fl64 (43 / 10) / 2) - fl64 (43 / 10) / 2 \<noteq> 3"
  by code_simp

text \<open>
  The example of the specification: one activity hit, the budget, the hidden gem and a
  rating of 4 give 3 + 2 + 2 + 2, for every \<open>toLowerCase\<close> that lowers \<open>Hiking\<close> to
  \<open>hiking\<close> and leaves \<open>hiking\<close> and \<open>low\<close> alone.
\<close>

lemma scoreSpot_example:
  assumes "lower (str ''Hiking'') = str ''hiking''" and "lower (str ''hiking'') = str ''hiking''"
    and "lower (str ''low'') = str ''low''"
  shows "real_of (scoreSpot lower r
     (Some \<lparr>preferredActivities = Some [str ''hiking''], budgetRange = Some (str ''low''),
            sceneryType = None, hiddenGems = Some True\<rparr>)
     (plain_spot\<lparr>category := [str ''Hiking''], budget_level := Some (str ''low''),
                 is_hidden_gem := True, rating := Some (dbl 4)\<rparr>)) = 9"
proof -
  have inc: "str_includes (str ''hiking'') (str ''hiking'')"
    by (simp add: str_includes_def)
  have ne: "str ''low'' \<noteq> []" by (simp add: str_def)
  show ?thesis
    by (simp add: scoreSpot_def Let_def category_matching_def budget_level_matching_def
      scenery_type_matching_def hidden_gems_preference_def rating_boost_def
      activity_matches_def plain_spot_def assms inc ne
      real_of_js_add real_of_js_mul real_of_js_half real_of_dbl)
qed

text \<open>
  The last addition of \<open>scoreSpot\<close> does round. For a spot rated 4.3, the score with one
  matching activity and the score without the activity list are not 3 apart.
\<close>

lemma scoreSpot_rounding_example:
  "real_of (scoreSpot (\<lambda>t. t) r
       (Some (no_preferences\<lparr>preferredActivities := Some [str ''hiking'']\<rparr>))
       (plain_spot\<lparr>category := [str ''hiking''], rating := Some (dbl (43 / 10))\<rparr>))
   - real_of (scoreSpot (\<lambda>t. t) r (Some no_preferences)
       (plain_spot\<lparr>category := [str ''hiking''], rating := Some (dbl (43 / 10))\<rparr>))
   \<noteq> 3"
proof -
  have nz: "fl64 (43 / 10) \<noteq> 0"
    by (simp add: fl64_eq_0_iff)
  have inc: "str_includes (str ''hiking'') (str ''hiking'')"
    by (simp add: str_includes_def)
  have a: "real_of (scoreSpot (\<lambda>t. t) r
       (Some (no_preferences\<lparr>preferredActivities := Some [str ''hiking'']\<rparr>))
       (plain_spot\<lparr>category := [str ''hiking''], rating := Some (dbl (43 / 10))\<rparr>))
     = fl64 (3 + fl64 (43 / 10) / 2)"
    using nz by (simp add: scoreSpot_def Let_def category_matching_def
      budget_level_matching_def scenery_type_matching_def hidden_gems_preference_def
      rating_boost_def activity_matches_def plain_spot_def no_preferences_def inc
      real_of_js_add real_of_js_mul real_of_js_half real_of_dbl)
  have b: "real_of (scoreSpot (\<lambda>t. t) r (Some no_preferences)
       (plain_spot\<lparr>category := [str ''hiking''], rating := Some (dbl (43 / 10))\<rparr>))
     = fl64 (43 / 10) / 2"
    by (simp add: scoreSpot_no_signal real_of_dbl)
  show ?thesis
    unfolding a b by (rule fl64_rounds_sum)
qed

text \<open>
  Claim C1, as the specification states it: the activity part of the score is 3 times
  the number of pairs of activity and category tag that hit. It fails for the one
  activity \<open>hi\<close> and the tags \<open>hiking\<close> and \<open>hill\<close>, strings that \<open>toLowerCase\<close> returns
  as they are: two pairs hit, the code adds 3 once.
\<close>

lemma sample_hits:
  "filter (activity_matches (\<lambda>t. t) (plain_spot\<lparr>category := [str ''hiking'', str ''hill'']\<rparr>))
     [str ''hi''] = [str ''hi'']"
  "activity_hits_spec (\<lambda>t. t) [str ''hi''] [str ''hiking'', str ''hill''] = 2"
  by (simp_all add: activity_matches_def activity_hits_spec_def str_includes_def str_def
      sublist_Cons_right)

theorem scoreSpot_pair_hits_counterexample:
  "real_of (scoreSpot (\<lambda>t. t) (dbl 0)
       (Some (no_preferences\<lparr>preferredActivities := Some [str ''hi'']\<rparr>))
       (plain_spot\<lparr>category := [str ''hiking'', str ''hill'']\<rparr>))
   \<noteq> 3 * real (activity_hits_spec (\<lambda>t. t) [str ''hi''] [str ''hiking'', str ''hill''])
     + real_of (scoreSpot (\<lambda>t. t) (dbl 0)
         (Some (no_preferences\<lparr>preferredActivities := None\<rparr>))
         (plain_spot\<lparr>category := [str ''hiking'', str ''hill'']\<rparr>))"
proof -
  let ?s = "plain_spot\<lparr>category := [str ''hiking'', str ''hill'']\<rparr>"
  have u: "?s\<lparr>rating := None\<rparr> = ?s" by (simp add: plain_spot_def)
  have n: "no_preferences\<lparr>preferredActivities := None\<rparr> = no_preferences"
    by (simp add: no_preferences_def)
  have z: "real_of (scoreSpot (\<lambda>t. t) (dbl 0) (Some no_preferences) ?s) = 0"
    by (simp add: scoreSpot_no_signal plain_spot_def)
  have "real_of (scoreSpot (\<lambda>t. t) (dbl 0)
       (Some (no_preferences\<lparr>preferredActivities := Some [str ''hi'']\<rparr>)) ?s) = 3"
  proof -
    have l1: "length [str ''hi''] < 2 ^ 32" by simp
    have l2: "length (scenery_type ?s) < 2 ^ 32" by (simp add: plain_spot_def)
    note scoreSpot_unrated_activities [OF l1 l2, of "\<lambda>t. t" "dbl 0" no_preferences]
    then have "real_of (scoreSpot (\<lambda>t. t) (dbl 0)
       (Some (no_preferences\<lparr>preferredActivities := Some [str ''hi'']\<rparr>)) ?s)
       = 3 * real (length [str ''hi'']) + 0"
      by (simp only: u n z sample_hits)
    then show ?thesis by simp
  qed
  then show ?thesis
    by (simp only: n z sample_hits)
qed

text \<open>
  Claim C1, amended. With a preferred-activity list, the score before the rating boost
  (the score of the spot with its rating taken away) is the one of the same preferences
  without that list plus exactly 3 times the number of preferred activities, counted as
  often as the list holds them, that some category tag of the spot contains after
  \<open>toLowerCase\<close> of both; one more activity in the list adds exactly 3 to it when it
  matches a tag and nothing when it does not. The score of the spot is this value when
  the spot has no rating or the rating 0, and otherwise the double nearest to this value
  plus half the rating.
\<close>

theorem scoreSpot_activity_component:
  assumes "length (a # acts) < 2 ^ 32" and "length (scenery_type s) < 2 ^ 32"
  shows "real_of (scoreSpot lower r (Some (prefs\<lparr>preferredActivities := Some acts\<rparr>))
                   (s\<lparr>rating := None\<rparr>))
       = 3 * real (length (filter (activity_matches lower s) acts))
         + real_of (scoreSpot lower r (Some (prefs\<lparr>preferredActivities := None\<rparr>))
                      (s\<lparr>rating := None\<rparr>))
   \<and> real_of (scoreSpot lower r (Some (prefs\<lparr>preferredActivities := Some (a # acts)\<rparr>))
                (s\<lparr>rating := None\<rparr>))
       = real_of (scoreSpot lower r (Some (prefs\<lparr>preferredActivities := Some acts\<rparr>))
                    (s\<lparr>rating := None\<rparr>))
         + (if activity_matches lower s a then 3 else 0)
   \<and> scoreSpot lower r (Some (prefs\<lparr>preferredActivities := Some acts\<rparr>)) s
       = rating_boost s (scoreSpot lower r (Some (prefs\<lparr>preferredActivities := Some acts\<rparr>))
                           (s\<lparr>rating := None\<rparr>))
   \<and> rating_boost s (scoreSpot lower r (Some (prefs\<lparr>preferredActivities := Some acts\<rparr>))
                        (s\<lparr>rating := None\<rparr>))
       = (case rating s of
            None \<Rightarrow> scoreSpot lower r (Some (prefs\<lparr>preferredActivities := Some acts\<rparr>))
                      (s\<lparr>rating := None\<rparr>)
          | Some x \<Rightarrow>
              if real_of x = 0
              then scoreSpot lower r (Some (prefs\<lparr>preferredActivities := Some acts\<rparr>))
                     (s\<lparr>rating := None\<rparr>)
              else dbl (real_of (scoreSpot lower r
                                  (Some (prefs\<lparr>preferredActivities := Some acts\<rparr>))
                                  (s\<lparr>rating := None\<rparr>))
                        + real_of x / 2))"
proof -
  from assms(1) have l: "length acts < 2 ^ 32" by simp
  note one = scoreSpot_unrated_activities [OF l assms(2), of lower r prefs]
  note two = scoreSpot_unrated_activities [OF assms, of lower r prefs]
  from one two have step: "real_of (scoreSpot lower r
        (Some (prefs\<lparr>preferredActivities := Some (a # acts)\<rparr>)) (s\<lparr>rating := None\<rparr>))
       = real_of (scoreSpot lower r (Some (prefs\<lparr>preferredActivities := Some acts\<rparr>))
                    (s\<lparr>rating := None\<rparr>))
         + (if activity_matches lower s a then 3 else 0)"
    by simp
  have boost: "rating_boost s acc
       = (case rating s of None \<Rightarrow> acc
          | Some x \<Rightarrow> if real_of x = 0 then acc else dbl (real_of acc + real_of x / 2))" for acc
    by (simp add: rating_boost_def js_add_def real_of_js_half split: option.splits)
  from one step show ?thesis
    by (simp only: scoreSpot_rating_boost [symmetric] simp_thms)
       (simp only: scoreSpot_rating_boost [of lower r _ s] boost)
qed

theorem scoreSpot_activity_component_witness:
  "real_of (scoreSpot (\<lambda>t. t) (dbl 0)
       (Some (no_preferences\<lparr>preferredActivities := Some [str ''hi'']\<rparr>))
       (plain_spot\<lparr>category := [str ''hiking'', str ''hill'']\<rparr>)) = 3"
proof -
  let ?s = "plain_spot\<lparr>category := [str ''hiking'', str ''hill'']\<rparr>"
  have l1: "length (str ''hi'' # []) < 2 ^ 32" by simp
  have l2: "length (scenery_type ?s) < 2 ^ 32" by (simp add: plain_spot_def)
  have u: "?s\<lparr>rating := None\<rparr> = ?s" by (simp add: plain_spot_def)
  have n: "no_preferences\<lparr>preferredActivities := None\<rparr> = no_preferences"
    by (simp add: no_preferences_def)
  have z: "real_of (scoreSpot (\<lambda>t. t) (dbl 0) (Some no_preferences) ?s) = 0"
    by (simp add: scoreSpot_no_signal plain_spot_def)
  have e: "real_of (scoreSpot (\<lambda>t. t) (dbl 0)
       (Some (no_preferences\<lparr>preferredActivities := Some []\<rparr>)) ?s) = 0"
    using scoreSpot_activity_component [OF l1 l2, of "\<lambda>t. t" "dbl 0" no_preferences]
    by (simp add: u n z)
  have m: "activity_matches (\<lambda>t. t) ?s (str ''hi'')"
    by (simp add: activity_matches_def str_includes_def str_def sublist_Cons_right)
  from scoreSpot_activity_component [OF l1 l2, of "\<lambda>t. t" "dbl 0" no_preferences]
  have "real_of (scoreSpot (\<lambda>t. t) (dbl 0)
       (Some (no_preferences\<lparr>preferredActivities := Some [str ''hi'']\<rparr>)) ?s)
     = real_of (scoreSpot (\<lambda>t. t) (dbl 0)
       (Some (no_preferences\<lparr>preferredActivities := Some []\<rparr>)) ?s)
       + (if activity_matches (\<lambda>t. t) ?s (str ''hi'') then 3 else 0)"
    by (simp only: u)
  with e m show ?thesis by simp
qed




section \<open>Properties of the Top-K selection\<close>

lemma map_spot_scoreAll: "map spot (scoreAll lower random p xs) = xs"
proof -
  have "map spot (scoreAll lower random p xs) = map snd (enumerate 0 xs)"
    by (simp add: scoreAll_def case_prod_unfold comp_def)
  then show ?thesis by (simp add: map_snd_enumerate)
qed

lemma map_score_scoreAll:
  "map score (scoreAll lower random p xs) =
     map (\<lambda>i. scoreSpot lower (random i) p (xs ! i)) [0..<length xs]"
  by (rule nth_equalityI) (simp_all add: scoreAll_def nth_enumerate_eq)

lemma length_scoreAll: "length (scoreAll lower random p xs) = length xs"
  by (simp add: scoreAll_def)

lemma mset_sort_desc: "mset (sort_desc items) = mset items"
  by (simp add: sort_desc_def)

lemma sorted_sort_desc: "sorted_wrt (\<lambda>a b. real_of (score b) \<le> real_of (score a)) (sort_desc items)"
proof -
  have "sorted (map (\<lambda>item. - real_of (score item)) (sort_desc items))"
    by (simp add: sort_desc_def)
  then show ?thesis
    by (simp add: sorted_wrt_map)
qed

lemma stable_sort_desc:
  "filter (\<lambda>x. score x = k) (sort_desc items) = filter (\<lambda>x. score x = k) items"
  using sort_key_stable [of "\<lambda>item. - real_of (score item)" "- real_of k" items]
  by (simp add: sort_desc_def real_of_inject)

lemma set_scoredSpots: "set (scoredSpots lower random st) \<subseteq> spot_id ` set (spots st)"
proof
  fix i assume "i \<in> set (scoredSpots lower random st)"
  then obtain item where
    item: "item \<in> set (take 8 (sort_desc (scoreAll lower random (userPreferences st) (spots st))))"
    and i: "i = spot_id (spot item)"
    by (auto simp: scoredSpots_def)
  from item have "item \<in> set (sort_desc (scoreAll lower random (userPreferences st) (spots st)))"
    by (rule in_set_takeD)
  then have "item \<in> set (scoreAll lower random (userPreferences st) (spots st))"
    by (simp add: sort_desc_def)
  then have "spot item \<in> set (map spot (scoreAll lower random (userPreferences st) (spots st)))"
    by simp
  then have "spot item \<in> set (spots st)"
    by (simp only: map_spot_scoreAll)
  with i show "i \<in> spot_id ` set (spots st)" by simp
qed

lemma length_scoredSpots: "length (scoredSpots lower random st) = min 8 (length (spots st))"
  by (simp add: scoredSpots_def sort_desc_def length_scoreAll min.commute)

text \<open>
  The ranking that the selection cuts is the only list with the three properties named
  in the theorem below: a rearrangement of the scored spots, falling in score, in which
  spots of equal score keep their order.
\<close>

lemma ranked_unique:
  assumes "mset ranked = mset items"
    and "sorted_wrt (\<lambda>a b. real_of (score b) \<le> real_of (score a)) ranked"
    and "\<And>k. filter (\<lambda>x. score x = k) ranked = filter (\<lambda>x. score x = k) items"
  shows "ranked = sort_desc items"
proof -
  have "sort_key (\<lambda>item. - real_of (score item)) items = ranked"
  proof (rule properties_for_sort_key)
    show "mset ranked = mset items" by fact
    show "sorted (map (\<lambda>item. - real_of (score item)) ranked)"
      using assms(2) by (simp add: sorted_wrt_map)
    fix k assume "k \<in> set ranked"
    have e: "(\<lambda>x. - real_of (score k) = - real_of (score x)) = (\<lambda>x. score x = score k)"
      by (auto simp: real_of_inject)
    show "filter (\<lambda>x. - real_of (score k) = - real_of (score x)) ranked
        = filter (\<lambda>x. - real_of (score k) = - real_of (score x)) items"
      unfolding e by (rule assms(3))
  qed
  then show ?thesis by (simp add: sort_desc_def)
qed

text \<open>
  The ranking compares the scores as doubles. For the two sample spots the exact sums
  would put the second first; as doubles they are equal, and the first stays first.
\<close>

lemma ranking_tie_example:
  "fl64 (43 / 10) / 2 + 3 < fl64 (3 / 10) / 2 + 5"
  "real_of (scoreSpot (\<lambda>t. t) (dbl 0) (Some prefs_AB) spot_A)
     = real_of (scoreSpot (\<lambda>t. t) (dbl 0) (Some prefs_AB) spot_B)"
  "scoredSpots (\<lambda>t. t) (\<lambda>_. dbl 0)
     \<lparr>itineraryName = [], loading = False, spots = [spot_A, spot_B], selectedSpots = [],
      fetchingSpots = False, userPreferences = Some prefs_AB\<rparr> = [str ''A'', str ''B'']"
  by code_simp+

text \<open>
  Claim C3. \<open>handleAutoSelect\<close> picks at most \<open>min 8 n\<close> identifiers out of \<open>n\<close> spots, each
  the identifier of a spot of the list; the identifiers are those of the first 8 entries
  of the spots ranked by falling score with spots of equal score in list order, every
  spot being scored by \<open>scoreSpot\<close>; and these identifiers become the selection.
\<close>

theorem handleAutoSelect_top8:
  "length (scoredSpots lower random st) \<le> min 8 (length (spots st))
   \<and> set (scoredSpots lower random st) \<subseteq> spot_id ` set (spots st)
   \<and> map spot (scoreAll lower random (userPreferences st) (spots st)) = spots st
   \<and> map score (scoreAll lower random (userPreferences st) (spots st)) =
       map (\<lambda>i. scoreSpot lower (random i) (userPreferences st) (spots st ! i)) [0..<length (spots st)]
   \<and> (\<exists>ranked.
         mset ranked = mset (scoreAll lower random (userPreferences st) (spots st))
       \<and> sorted_wrt (\<lambda>a b. real_of (score b) \<le> real_of (score a)) ranked
       \<and> (\<forall>k. filter (\<lambda>x. score x = k) ranked =
               filter (\<lambda>x. score x = k) (scoreAll lower random (userPreferences st) (spots st)))
       \<and> scoredSpots lower random st = map (\<lambda>item. spot_id (spot item)) (take 8 ranked))
   \<and> set (selectedSpots (fst (handleAutoSelect lower random st))) = set (scoredSpots lower random st)
   \<and> set_size (selectedSpots (fst (handleAutoSelect lower random st))) \<le> min 8 (length (spots st))"
proof -
  let ?items = "scoreAll lower random (userPreferences st) (spots st)"
  have ex: "\<exists>ranked.
         mset ranked = mset ?items
       \<and> sorted_wrt (\<lambda>a b. real_of (score b) \<le> real_of (score a)) ranked
       \<and> (\<forall>k. filter (\<lambda>x. score x = k) ranked = filter (\<lambda>x. score x = k) ?items)
       \<and> scoredSpots lower random st = map (\<lambda>item. spot_id (spot item)) (take 8 ranked)"
    by (rule exI [of _ "sort_desc ?items"])
       (simp add: mset_sort_desc sorted_sort_desc stable_sort_desc scoredSpots_def)
  have sel: "set (selectedSpots (fst (handleAutoSelect lower random st))) = set (scoredSpots lower random st)"
    by (simp add: handleAutoSelect_def set_new_Set)
  have "set_size (selectedSpots (fst (handleAutoSelect lower random st)))
          \<le> length (scoredSpots lower random st)"
    by (simp add: handleAutoSelect_def set_size_def length_new_Set)
  then have size: "set_size (selectedSpots (fst (handleAutoSelect lower random st)))
          \<le> min 8 (length (spots st))"
    by (simp only: length_scoredSpots)
  have len: "length (scoredSpots lower random st) \<le> min 8 (length (spots st))"
    by (simp only: length_scoredSpots)
  from len set_scoredSpots ex sel size show ?thesis
    by (simp only: map_spot_scoreAll map_score_scoreAll simp_thms)
qed

section \<open>Properties of \<open>handleCreateItinerary\<close>\<close>

lemma trim_empty_iff: "trim s = [] \<longleftrightarrow> (\<forall>c\<in>set s. is_whitespace c)"
proof
  assume "\<forall>c\<in>set s. is_whitespace c"
  then have d: "dropWhile is_whitespace s = []"
    by simp
  show "trim s = []"
    unfolding trim_def d by simp
next
  assume e: "trim s = []"
  show "\<forall>c\<in>set s. is_whitespace c"
  proof (rule ccontr)
    assume "\<not> (\<forall>c\<in>set s. is_whitespace c)"
    then have ne: "dropWhile is_whitespace s \<noteq> []"
      by simp
    then have "\<not> is_whitespace (hd (dropWhile is_whitespace s))"
      by (rule hd_dropWhile)
    moreover from ne have "hd (dropWhile is_whitespace s) \<in> set (rev (dropWhile is_whitespace s))"
      by simp
    ultimately have "dropWhile is_whitespace (rev (dropWhile is_whitespace s)) \<noteq> []"
      by auto
    with e show False
      by (simp add: trim_def)
  qed
qed

lemma handleCreateItinerary_rejected:
  "trim (itineraryName st) = [] \<or> selectedSpots st = [] \<Longrightarrow>
   handleCreateItinerary insert_error userId st =
     (st, [Toast_error (if trim (itineraryName st) = []
                        then ''Please enter an itinerary name''
                        else ''Please select at least one spot'')])"
  by (auto simp: handleCreateItinerary_def set_size_def)

lemma handleCreateItinerary_submitted:
  "trim (itineraryName st) \<noteq> [] \<Longrightarrow> selectedSpots st \<noteq> [] \<Longrightarrow>
   handleCreateItinerary insert_error userId st =
     (if insert_error (built_row userId st)
      then (st\<lparr>loading := False\<rparr>,
            [Insert (built_row userId st), Toast_error ''Failed to create itinerary''])
      else (st\<lparr>loading := False, itineraryName := [], selectedSpots := []\<rparr>,
            [Insert (built_row userId st), Toast_success ''Itinerary created successfully!'',
             OnOpenChange False, OnSuccess]))"
  by (simp add: handleCreateItinerary_def built_row_def set_size_def Let_def new_Set_def)

lemma Insert_built_row:
  assumes "Insert row \<in> set (snd (handleCreateItinerary insert_error userId st))"
  shows "row = built_row userId st \<and> trim (itineraryName st) \<noteq> [] \<and> selectedSpots st \<noteq> []"
proof (cases "trim (itineraryName st) = [] \<or> selectedSpots st = []")
  case True
  with assms show ?thesis
    by (simp add: handleCreateItinerary_rejected)
next
  case False
  with assms show ?thesis
    by (simp add: handleCreateItinerary_submitted split: if_splits)
qed

lemma built_row_categories:
  "set (selected_categories (built_row userId st))
     = (\<Union>s\<in>set (row_spots (built_row userId st)). set (category s))"
  "distinct (selected_categories (built_row userId st))"
  by (simp_all add: built_row_def Let_def set_new_Set distinct_new_Set)

lemma sample_state_row:
  "built_row (str ''u1'') sample_state =
     \<lparr>user_id = (str ''u1''), name = str ''Weekend'',
      row_spots = [plain_spot\<lparr>spot_id := str ''s1'', category := [str ''Nature'', str ''Hiking'']\<rparr>,
                   plain_spot\<lparr>spot_id := str ''s2'', category := [str ''Hiking'', str ''Food'']\<rparr>],
      selected_categories = [str ''Nature'', str ''Hiking'', str ''Food'']\<rparr>"
  by (simp add: built_row_def sample_state_def plain_spot_def set_has_def new_Set_def set_add_def str_def)

lemma sample_state_valid:
  "trim (itineraryName sample_state) \<noteq> []" "selectedSpots sample_state \<noteq> []"
  by (simp_all add: sample_state_def trim_def is_whitespace_def str_def)

lemma sample_state_insert:
  "Insert (built_row (str ''u1'') sample_state)
     \<in> set (snd (handleCreateItinerary (\<lambda>_. False) (str ''u1'') sample_state))"
  by (simp add: handleCreateItinerary_submitted sample_state_valid)

lemma ghost_state_valid:
  "trim (itineraryName ghost_state) \<noteq> []" "selectedSpots ghost_state \<noteq> []"
  by (simp_all add: ghost_state_def trim_def is_whitespace_def str_def)

text \<open>
  Claim C4. The category list stored with a created itinerary holds exactly the category
  tags of the spots stored with it, each once: as a set it is the union of their tag
  lists. For spots tagged \<open>Nature, Hiking\<close> and \<open>Hiking, Food\<close> it is
  \<open>Nature, Hiking, Food\<close>.
\<close>

theorem created_categories_are_union:
  assumes "Insert row \<in> set (snd (handleCreateItinerary insert_error userId st))"
  shows "set (selected_categories row) = (\<Union>s\<in>set (row_spots row). set (category s))
       \<and> distinct (selected_categories row)"
  using Insert_built_row [OF assms] by (simp add: built_row_categories)

theorem created_categories_are_union_witness:
  "Insert (built_row (str ''u1'') sample_state)
     \<in> set (snd (handleCreateItinerary (\<lambda>_. False) (str ''u1'') sample_state))
   \<and> selected_categories (built_row (str ''u1'') sample_state) = [str ''Nature'', str ''Hiking'', str ''Food'']
   \<and> set (selected_categories (built_row (str ''u1'') sample_state)) = {str ''Nature'', str ''Hiking'', str ''Food''}"
  using created_categories_are_union [OF sample_state_insert] sample_state_insert
  by (simp add: sample_state_row)

text \<open>
  Claim C5. When the itinerary name is empty or made of white space only, or the
  selection is empty, \<open>handleCreateItinerary\<close> leaves the state as it is, emits one error
  notification and nothing else: no insert is sent to the store.
\<close>

theorem create_rejected_before_insert:
  assumes "(\<forall>c\<in>set (itineraryName st). is_whitespace c) \<or> set_size (selectedSpots st) = 0"
  shows "fst (handleCreateItinerary insert_error userId st) = st
       \<and> (\<exists>msg. snd (handleCreateItinerary insert_error userId st) = [Toast_error msg])
       \<and> (\<forall>row. Insert row \<notin> set (snd (handleCreateItinerary insert_error userId st)))"
proof -
  from assms have "trim (itineraryName st) = [] \<or> selectedSpots st = []"
    by (simp add: trim_empty_iff set_size_def)
  then show ?thesis
    by (simp add: handleCreateItinerary_rejected)
qed

theorem create_rejected_before_insert_witness:
  "handleCreateItinerary (\<lambda>_. False) (str ''u1'') (sample_state\<lparr>itineraryName := [0x20, 0x09, 0xA0]\<rparr>)
     = (sample_state\<lparr>itineraryName := [0x20, 0x09, 0xA0]\<rparr>,
        [Toast_error ''Please enter an itinerary name''])
   \<and> handleCreateItinerary (\<lambda>_. False) (str ''u1'') (sample_state\<lparr>selectedSpots := []\<rparr>)
     = (sample_state\<lparr>selectedSpots := []\<rparr>, [Toast_error ''Please select at least one spot''])"
proof -
  have a: "(\<forall>c\<in>set (itineraryName (sample_state\<lparr>itineraryName := [0x20, 0x09, 0xA0]\<rparr>)).
              is_whitespace c)
           \<or> set_size (selectedSpots (sample_state\<lparr>itineraryName := [0x20, 0x09, 0xA0]\<rparr>)) = 0"
    by (simp add: is_whitespace_def str_def)
  have b: "(\<forall>c\<in>set (itineraryName (sample_state\<lparr>selectedSpots := []\<rparr>)). is_whitespace c)
           \<or> set_size (selectedSpots (sample_state\<lparr>selectedSpots := []\<rparr>)) = 0"
    by (simp add: set_size_def)
  show ?thesis
    using create_rejected_before_insert [OF a, of "\<lambda>_. False" "str ''u1''"]
      create_rejected_before_insert [OF b, of "\<lambda>_. False" "str ''u1''"]
    by (simp add: handleCreateItinerary_def sample_state_def trim_def is_whitespace_def
        set_size_def str_def)
qed

text \<open>
  Claim C6. Once the name and the selection have passed validation, the insert is sent.
  When the store answers with an error, the name and the selection stay as they were
  (only \<open>loading\<close> is false again) and an error notification is shown; when it succeeds,
  the name is reset to the empty string and the selection to the empty set.
\<close>

theorem create_outcome_state:
  assumes "trim (itineraryName st) \<noteq> []" and "selectedSpots st \<noteq> []"
    and "handleCreateItinerary insert_error userId st = (st', effects)"
  shows "hd effects = Insert (built_row userId st)
       \<and> (insert_error (built_row userId st) \<longrightarrow>
            itineraryName st' = itineraryName st \<and> selectedSpots st' = selectedSpots st
          \<and> st' = st\<lparr>loading := False\<rparr>
          \<and> effects = [Insert (built_row userId st), Toast_error ''Failed to create itinerary''])
       \<and> (\<not> insert_error (built_row userId st) \<longrightarrow>
            itineraryName st' = [] \<and> selectedSpots st' = []
          \<and> st' = st\<lparr>loading := False, itineraryName := [], selectedSpots := []\<rparr>
          \<and> effects = [Insert (built_row userId st),
                        Toast_success ''Itinerary created successfully!'',
                        OnOpenChange False, OnSuccess])"
  using assms by (auto simp: handleCreateItinerary_submitted split: if_splits)

theorem create_outcome_state_witness:
  "fst (handleCreateItinerary (\<lambda>_. True) (str ''u1'') sample_state) = sample_state
   \<and> itineraryName (fst (handleCreateItinerary (\<lambda>_. False) (str ''u1'') sample_state)) = []
   \<and> selectedSpots (fst (handleCreateItinerary (\<lambda>_. False) (str ''u1'') sample_state)) = []"
proof -
  have l: "sample_state\<lparr>loading := False\<rparr> = sample_state"
    by (simp add: sample_state_def)
  have t: "handleCreateItinerary (\<lambda>_. True) (str ''u1'') sample_state =
      (fst (handleCreateItinerary (\<lambda>_. True) (str ''u1'') sample_state),
       snd (handleCreateItinerary (\<lambda>_. True) (str ''u1'') sample_state))"
    by (rule prod.collapse [symmetric])
  have f: "handleCreateItinerary (\<lambda>_. False) (str ''u1'') sample_state =
      (fst (handleCreateItinerary (\<lambda>_. False) (str ''u1'') sample_state),
       snd (handleCreateItinerary (\<lambda>_. False) (str ''u1'') sample_state))"
    by (rule prod.collapse [symmetric])
  from create_outcome_state [OF sample_state_valid t]
  have "fst (handleCreateItinerary (\<lambda>_. True) (str ''u1'') sample_state) = sample_state"
    by (simp only: l simp_thms)
  moreover from create_outcome_state [OF sample_state_valid f]
  have "itineraryName (fst (handleCreateItinerary (\<lambda>_. False) (str ''u1'') sample_state)) = []
      \<and> selectedSpots (fst (handleCreateItinerary (\<lambda>_. False) (str ''u1'') sample_state)) = []"
    by simp
  ultimately show ?thesis by (simp only: simp_thms)
qed

text \<open>
  Claim C10. The spot list stored with a created itinerary is the fetched spot list
  filtered by membership of the identifier in the selection, in fetched order. Selected
  identifiers that no fetched spot carries leave no trace: a selection that is not empty
  but misses every fetched spot passes validation, and the one insert sent stores an
  empty spot list.
\<close>

theorem created_spots_are_filtered:
  assumes "trim (itineraryName st) \<noteq> []" and "selectedSpots st \<noteq> []"
  shows "\<exists>row. Insert row \<in> set (snd (handleCreateItinerary insert_error userId st))
       \<and> (\<forall>other. Insert other \<in> set (snd (handleCreateItinerary insert_error userId st))
             \<longrightarrow> other = row)
       \<and> row_spots row = filter (\<lambda>s. spot_id s \<in> set (selectedSpots st)) (spots st)
       \<and> (set (selectedSpots st) \<inter> spot_id ` set (spots st) = {} \<longrightarrow> row_spots row = [])"
proof -
  have f: "row_spots (built_row userId st)
      = filter (\<lambda>s. spot_id s \<in> set (selectedSpots st)) (spots st)"
    by (simp add: built_row_def Let_def set_has_def)
  have e: "set (selectedSpots st) \<inter> spot_id ` set (spots st) = {}
      \<Longrightarrow> filter (\<lambda>s. spot_id s \<in> set (selectedSpots st)) (spots st) = []"
    by (auto simp: filter_empty_conv)
  from assms have i: "Insert (built_row userId st)
      \<in> set (snd (handleCreateItinerary insert_error userId st))"
    by (simp add: handleCreateItinerary_submitted)
  have u: "\<forall>other. Insert other \<in> set (snd (handleCreateItinerary insert_error userId st))
             \<longrightarrow> other = built_row userId st"
    using Insert_built_row by blast
  show ?thesis
  proof (intro exI [of _ "built_row userId st"] conjI)
    show "Insert (built_row userId st)
        \<in> set (snd (handleCreateItinerary insert_error userId st))" by (rule i)
    show "\<forall>other. Insert other \<in> set (snd (handleCreateItinerary insert_error userId st))
             \<longrightarrow> other = built_row userId st" by (rule u)
    show "row_spots (built_row userId st)
        = filter (\<lambda>s. spot_id s \<in> set (selectedSpots st)) (spots st)" by (rule f)
    show "set (selectedSpots st) \<inter> spot_id ` set (spots st) = {}
        \<longrightarrow> row_spots (built_row userId st) = []"
      using e by (simp add: f)
  qed
qed

theorem created_spots_are_filtered_witness:
  "set_size (selectedSpots ghost_state) = 1
   \<and> (\<exists>row. Insert row \<in> set (snd (handleCreateItinerary (\<lambda>_. False) (str ''u1'') ghost_state))
          \<and> row_spots row = [])"
proof -
  have d: "set (selectedSpots ghost_state) \<inter> spot_id ` set (spots ghost_state) = {}"
    by (simp add: ghost_state_def plain_spot_def str_def)
  have s: "set_size (selectedSpots ghost_state) = 1"
    by (simp add: ghost_state_def set_size_def)
  from created_spots_are_filtered [OF ghost_state_valid, of "\<lambda>_. False" "str ''u1''"] d s
  show ?thesis by auto
qed

section \<open>Properties of the verification e-mail function\<close>

lemma emailHtml_head_ends: \<open>suffix ''<a href="'' emailHtml_head\<close>
  by code_simp

lemma emailHtml_middle_ends: \<open>suffix ''<div class="code">'' emailHtml_middle\<close>
  by code_simp

lemma verify_signature_ignores_failure:
  assumes "hookSecret env = Some secret" and "secret \<noteq> []"
    and "webhook_new env secret = None"
    and "webhook_verify env secret payload hdrs = Some err"
  shows "verify_signature env payload hdrs = Inr [Console_error ''Webhook verification failed:'' err]"
    and "verify_signature (env\<lparr>webhook_verify := \<lambda>_ _ _. None\<rparr>) payload hdrs = Inr []"
  using assms by (simp_all add: verify_signature_def)

lemma verification_email_verify_update:
  "verification_email (env\<lparr>webhook_verify := v\<rparr>) p = verification_email env p"
  by (simp add: verification_email_def)

lemma handler_after_verify:
  assumes "req_method req \<noteq> ''OPTIONS''"
    and "verify_signature env (req_body req) (req_headers req) = Inr logged"
  shows "handler env req =
     (case json_parse env (req_body req) of
        Inl e \<Rightarrow> (error_response e,
                  logged @ [Console_error ''Error sending verification email:'' e])
      | Inr p \<Rightarrow>
          (case emails_send env (verification_email env p) of
             Inl e \<Rightarrow> (error_response e,
                       logged @ [Emails_send (verification_email env p),
                                 Console_error ''Error sending verification email:'' e])
           | Inr r \<Rightarrow> (\<lparr>status = 200,
                         headers = (''Content-Type'', ''application/json'') # corsHeaders,
                         body = Body_result r\<rparr>,
                       logged @ [Emails_send (verification_email env p),
                                 Console_log ''Verification email sent successfully:'' r])))"
  using assms by (simp add: handler_def Let_def split: sum.splits)

text \<open>
  Claim C8. When a hook secret is set and \<open>wh.verify\<close> throws, the handler logs the
  failure and goes on: its response is the response of the same run with a signature
  that verifies, what it logs and sends afterwards is the same, so that a body that
  parses leads to the same call of the e-mail provider.
\<close>

theorem verification_failure_not_fatal:
  assumes "req_method req \<noteq> ''OPTIONS''"
    and "hookSecret env = Some secret" and "secret \<noteq> []"
    and "webhook_new env secret = None"
    and "webhook_verify env secret (req_body req) (req_headers req) = Some err"
  shows "fst (handler env req) = fst (handler (env\<lparr>webhook_verify := \<lambda>_ _ _. None\<rparr>) req)
       \<and> snd (handler env req) =
           Console_error ''Webhook verification failed:'' err
             # snd (handler (env\<lparr>webhook_verify := \<lambda>_ _ _. None\<rparr>) req)
       \<and> (\<forall>p. json_parse env (req_body req) = Inr p \<longrightarrow>
             Emails_send (verification_email env p) \<in> set (snd (handler env req)))"
proof -
  let ?ok = "env\<lparr>webhook_verify := \<lambda>_ _ _. None\<rparr>"
  have bad: "verify_signature env (req_body req) (req_headers req)
      = Inr [Console_error ''Webhook verification failed:'' err]"
    using assms(2-5) by (rule verify_signature_ignores_failure(1))
  have good: "verify_signature ?ok (req_body req) (req_headers req) = Inr []"
    using assms(2-5) by (rule verify_signature_ignores_failure(2))
  note h1 = handler_after_verify [OF assms(1) bad]
  note h2 = handler_after_verify [OF assms(1) good]
  show ?thesis
    by (simp add: h1 h2 verification_email_verify_update split: sum.splits)
qed

theorem verification_failure_not_fatal_witness:
  "handler (sample_env True (Inr sent_result)) sample_request =
     (\<lparr>status = 200, headers = (''Content-Type'', ''application/json'') # corsHeaders,
       body = Body_result sent_result\<rparr>,
      [Console_error ''Webhook verification failed:'' ''No matching signature found'',
       Emails_send (verification_email (sample_env True (Inr sent_result)) sample_payload),
       Console_log ''Verification email sent successfully:'' sent_result])
   \<and> fst (handler (sample_env True (Inr sent_result)) sample_request)
       = fst (handler (sample_env False (Inr sent_result)) sample_request)"
proof -
  have e: "(sample_env True (Inr sent_result))\<lparr>webhook_verify := \<lambda>_ _ _. None\<rparr>
      = sample_env False (Inr sent_result)"
    by (simp add: sample_env_def)
  have "req_method sample_request \<noteq> ''OPTIONS''"
    and "hookSecret (sample_env True (Inr sent_result))
           = Some ''whsec_MfKQ9r8GKYqrTwjUPD8ILPZIo2LaLaSw''"
    and "''whsec_MfKQ9r8GKYqrTwjUPD8ILPZIo2LaLaSw'' \<noteq> []"
    and "webhook_new (sample_env True (Inr sent_result))
           ''whsec_MfKQ9r8GKYqrTwjUPD8ILPZIo2LaLaSw'' = None"
    and "webhook_verify (sample_env True (Inr sent_result))
           ''whsec_MfKQ9r8GKYqrTwjUPD8ILPZIo2LaLaSw''
           (req_body sample_request) (req_headers sample_request)
         = Some ''No matching signature found''"
    by (simp_all add: sample_env_def sample_request_def)
  from verification_failure_not_fatal [OF this]
  have "fst (handler (sample_env True (Inr sent_result)) sample_request)
       = fst (handler (sample_env False (Inr sent_result)) sample_request)"
    by (simp only: e)
  moreover have "handler (sample_env True (Inr sent_result)) sample_request =
     (\<lparr>status = 200, headers = (''Content-Type'', ''application/json'') # corsHeaders,
       body = Body_result sent_result\<rparr>,
      [Console_error ''Webhook verification failed:'' ''No matching signature found'',
       Emails_send (verification_email (sample_env True (Inr sent_result)) sample_payload),
       Console_log ''Verification email sent successfully:'' sent_result])"
    by (simp add: handler_def verify_signature_def sample_env_def sample_request_def)
  ultimately show ?thesis by (simp only: simp_thms)
qed

text \<open>
  The paths of the handler. An \<open>OPTIONS\<close> request is answered with the CORS headers and
  no body. For any other request whose body parses, the HTML handed to the provider is
  the template with the verification link as the target of its anchor and the code in
  its code box, the link being the base URL followed by \<open>/auth/v1/verify?token=\<close>, the
  token hash, \<open>&type=\<close>, the action, \<open>&redirect_to=\<close> and the redirect; the response is
  the result of the provider with status 200 whenever the send returns, and the message
  of the error with status 500 when the send or the parsing throws.
\<close>

lemma handler_paths:
  \<open>(req_method req = ''OPTIONS'' \<longrightarrow>
      handler env req = (\<lparr>status = 200, headers = corsHeaders, body = Body_null\<rparr>, []))
   \<and> (req_method req \<noteq> ''OPTIONS''
        \<and> verify_signature env (req_body req) (req_headers req) = Inr logged
        \<and> json_parse env (req_body req) = Inr p \<longrightarrow>
        Emails_send (verification_email env p) \<in> set (snd (handler env req))
      \<and> html (verification_email env p) =
          emailHtml_head @ verificationLink (SUPABASE_URL env) p @ emailHtml_middle
            @ token p @ emailHtml_tail
      \<and> suffix ''<a href="'' emailHtml_head
      \<and> suffix ''<div class="code">'' emailHtml_middle
      \<and> sublist (verificationLink (SUPABASE_URL env) p) (html (verification_email env p))
      \<and> sublist (token p) (html (verification_email env p))
      \<and> (\<forall>base. SUPABASE_URL env = Some base \<longrightarrow>
            verificationLink (SUPABASE_URL env) p =
              base @ ''/auth/v1/verify?token='' @ token_hash p @ ''&type=''
                @ email_action_type p @ ''&redirect_to='' @ redirect_to p)
      \<and> (\<forall>r. emails_send env (verification_email env p) = Inr r \<longrightarrow>
            fst (handler env req) =
              \<lparr>status = 200,
               headers = (''Content-Type'', ''application/json'') # corsHeaders,
               body = Body_result r\<rparr>)
      \<and> (\<forall>e. emails_send env (verification_email env p) = Inl e \<longrightarrow>
            fst (handler env req) =
              \<lparr>status = 500,
               headers = (''Content-Type'', ''application/json'') # corsHeaders,
               body = Body_error e\<rparr>))
   \<and> (req_method req \<noteq> ''OPTIONS''
        \<and> verify_signature env (req_body req) (req_headers req) = Inr logged \<longrightarrow>
        (\<forall>e. json_parse env (req_body req) = Inl e \<longrightarrow>
            fst (handler env req) =
              \<lparr>status = 500,
               headers = (''Content-Type'', ''application/json'') # corsHeaders,
               body = Body_error e\<rparr>))\<close>
proof (intro conjI impI)
  assume "req_method req = ''OPTIONS''"
  then show "handler env req = (\<lparr>status = 200, headers = corsHeaders, body = Body_null\<rparr>, [])"
    by (simp add: handler_def)
next
  assume a: "req_method req \<noteq> ''OPTIONS''
        \<and> verify_signature env (req_body req) (req_headers req) = Inr logged
        \<and> json_parse env (req_body req) = Inr p"
  then have h: "handler env req =
      (case emails_send env (verification_email env p) of
             Inl e \<Rightarrow> (error_response e,
                       logged @ [Emails_send (verification_email env p),
                                 Console_error ''Error sending verification email:'' e])
           | Inr r \<Rightarrow> (\<lparr>status = 200,
                         headers = (''Content-Type'', ''application/json'') # corsHeaders,
                         body = Body_result r\<rparr>,
                       logged @ [Emails_send (verification_email env p),
                                 Console_log ''Verification email sent successfully:'' r]))"
    by (simp add: handler_after_verify)
  show "Emails_send (verification_email env p) \<in> set (snd (handler env req))"
    by (simp add: h split: sum.splits)
  show hh: "html (verification_email env p) =
          emailHtml_head @ verificationLink (SUPABASE_URL env) p @ emailHtml_middle
            @ token p @ emailHtml_tail"
    by (simp add: verification_email_def emailHtml_def)
  show \<open>suffix ''<a href="'' emailHtml_head\<close>
    by (rule emailHtml_head_ends)
  show \<open>suffix ''<div class="code">'' emailHtml_middle\<close>
    by (rule emailHtml_middle_ends)
  show "sublist (verificationLink (SUPABASE_URL env) p) (html (verification_email env p))"
    unfolding hh by (rule sublist_appendI)
  have "sublist (token p)
      ((emailHtml_head @ verificationLink (SUPABASE_URL env) p @ emailHtml_middle)
         @ token p @ emailHtml_tail)"
    by (rule sublist_appendI)
  then show "sublist (token p) (html (verification_email env p))"
    unfolding hh by simp
  show "\<forall>base. SUPABASE_URL env = Some base \<longrightarrow>
            verificationLink (SUPABASE_URL env) p =
              base @ ''/auth/v1/verify?token='' @ token_hash p @ ''&type=''
                @ email_action_type p @ ''&redirect_to='' @ redirect_to p"
    by (simp add: verificationLink_def template_value_def)
  show "\<forall>r. emails_send env (verification_email env p) = Inr r \<longrightarrow>
            fst (handler env req) =
              \<lparr>status = 200,
               headers = (''Content-Type'', ''application/json'') # corsHeaders,
               body = Body_result r\<rparr>"
    by (simp add: h)
  show "\<forall>e. emails_send env (verification_email env p) = Inl e \<longrightarrow>
            fst (handler env req) =
              \<lparr>status = 500,
               headers = (''Content-Type'', ''application/json'') # corsHeaders,
               body = Body_error e\<rparr>"
    by (simp add: h error_response_def)
next
  assume a: "req_method req \<noteq> ''OPTIONS''
        \<and> verify_signature env (req_body req) (req_headers req) = Inr logged"
  then show "\<forall>e. json_parse env (req_body req) = Inl e \<longrightarrow>
            fst (handler env req) =
              \<lparr>status = 500,
               headers = (''Content-Type'', ''application/json'') # corsHeaders,
               body = Body_error e\<rparr>"
    by (simp add: handler_after_verify error_response_def)
qed


text \<open>
  Claim C9. The claim holds on these paths but for one case: a send that the provider
  refuses. The client resolves such a send to a result whose \<open>error\<close> is set and does
  not throw, so the handler takes the path of success: for the sample request and a
  refused send it answers 200 with the result as body, not 500 with the error message,
  and logs that the e-mail was sent. No hook secret is set here, so that no signature is
  checked.
\<close>

theorem handler_refused_send_answers_200:
  "handler ((sample_env False (Inr refused_result))\<lparr>hookSecret := None\<rparr>) sample_request =
     (\<lparr>status = 200, headers = (''Content-Type'', ''application/json'') # corsHeaders,
       body = Body_result refused_result\<rparr>,
      [Emails_send (verification_email
                      ((sample_env False (Inr refused_result))\<lparr>hookSecret := None\<rparr>)
                      sample_payload),
       Console_log ''Verification email sent successfully:'' refused_result])
   \<and> result_data refused_result = None
   \<and> result_error refused_result \<noteq> None"
  by (simp add: handler_def verify_signature_def sample_env_def sample_request_def
      refused_result_def)

end
